theory Spec2Isabelle
  imports Main "HOL-Library.Sublist"
begin

section \<open>Python strings\<close>

text \<open>
  A Python \<open>str\<close> is a sequence of code points, and a string is modelled as a list with
  one element per code point, so that \<open>len\<close> is \<open>length\<close> and a slice \<open>s[:n]\<close> is \<open>take n s\<close>.
  In the data of the servers an element is a \<open>char\<close>, which holds a code point below
  U+0100, and \<open>lower\<close> and \<open>strip\<close> are those of Python on such text. The functions that do
  not look inside a character (\<open>in\<close>, \<open>replace\<close>, \<open>split\<close>) are modelled for lists of any type,
  and the action item extraction, which depends on how characters are counted,
  lower-cased and stripped, is modelled for any character type, with the library's
  \<open>lower\<close> and \<open>isspace\<close> as parameters. The glyphs beyond U+00FF in the message literals of
  the sources stand as the UTF-8 bytes the source files hold; they occur in message texts
  only.
\<close>

definition newline :: char where
  "newline = CHR 0x0A"

text \<open>
  \<open>str.lower()\<close> below U+0100: the letters A to Z and the letters U+00C0 to U+00DE, the
  multiplication sign U+00D7 apart, move up by 32; every other character stays.
\<close>

definition lower_char :: "char \<Rightarrow> char" where
  "lower_char c =
     (let n = of_char c :: nat in
      if (65 \<le> n \<and> n \<le> 90) \<or> (192 \<le> n \<and> n \<le> 222 \<and> n \<noteq> 215)
      then char_of (n + 32) else c)"

definition str_lower :: "string \<Rightarrow> string" where
  "str_lower s = map lower_char s"

text \<open>
  \<open>str.title()\<close> on a string of ASCII characters: a letter that follows a character that is
  not a letter (or starts the string) is upper-cased, a letter that follows a letter is
  lower-cased. The one call of the source, in \<open>_get_tasks\<close>, applies it to a string
  whose lower-cased text is \<open>high\<close>, \<open>medium\<close> or \<open>low\<close>.
\<close>

definition upper_char :: "char \<Rightarrow> char" where
  "upper_char c =
     (let n = of_char c :: nat in if 97 \<le> n \<and> n \<le> 122 then char_of (n - 32) else c)"

definition is_cased :: "char \<Rightarrow> bool" where
  "is_cased c =
     (let n = of_char c :: nat in (65 \<le> n \<and> n \<le> 90) \<or> (97 \<le> n \<and> n \<le> 122))"

fun title_from :: "bool \<Rightarrow> string \<Rightarrow> string" where
  "title_from prev_cased [] = []"
| "title_from prev_cased (c # cs) =
     (if is_cased c
      then (if prev_cased then lower_char c else upper_char c) # title_from True cs
      else c # title_from False cs)"

definition str_title :: "string \<Rightarrow> string" where
  "str_title s = title_from False s"

text \<open>
  \<open>str.strip()\<close> removes the leading and the trailing characters that \<open>isspace\<close> holds of.
  Below U+0100 these are tab, line feed, vertical tab, form feed, carriage return, the
  separators U+001C to U+001F, the space, U+0085 and the no-break space U+00A0.
\<close>

definition is_space :: "char \<Rightarrow> bool" where
  "is_space c =
     (c \<in> set [CHR 0x09, CHR 0x0A, CHR 0x0B, CHR 0x0C, CHR 0x0D,
                CHR 0x1C, CHR 0x1D, CHR 0x1E, CHR 0x1F, CHR 0x20, CHR 0x85, CHR 0xA0])"

definition strip_by :: "('a \<Rightarrow> bool) \<Rightarrow> 'a list \<Rightarrow> 'a list" where
  "strip_by space s = rev (dropWhile space (rev (dropWhile space s)))"

definition str_strip :: "string \<Rightarrow> string" where
  "str_strip s = strip_by is_space s"

text \<open>\<open>sub in s\<close> for two strings: \<open>sub\<close> occurs in \<open>s\<close> as a contiguous run.\<close>

definition starts_with :: "'a list \<Rightarrow> 'a list \<Rightarrow> bool" where
  "starts_with s p = (take (length p) s = p)"

fun str_contains :: "'a list \<Rightarrow> 'a list \<Rightarrow> bool" where
  "str_contains [] sub = (sub = [])"
| "str_contains (c # cs) sub = (starts_with (c # cs) sub \<or> str_contains cs sub)"

text \<open>
  \<open>s.replace(old, '')\<close> for a non-empty \<open>old\<close>: the occurrences of \<open>old\<close> are removed from
  left to right, without overlap. The counter holds how many characters of a matched
  occurrence are still to be skipped.
\<close>

fun remove_from :: "nat \<Rightarrow> 'a list \<Rightarrow> 'a list \<Rightarrow> 'a list" where
  "remove_from k old [] = []"
| "remove_from (Suc k) old (c # cs) = remove_from k old cs"
| "remove_from 0 old (c # cs) =
     (if starts_with (c # cs) old then remove_from (length old - 1) old cs
      else c # remove_from 0 old cs)"

definition str_remove :: "'a list \<Rightarrow> 'a list \<Rightarrow> 'a list" where
  "str_remove old s = remove_from 0 old s"

text \<open>
  \<open>s.split(sep)\<close> for a one-character separator: the pieces between the separators, empty
  pieces included, so the result is never empty.
\<close>

fun str_split :: "'a \<Rightarrow> 'a list \<Rightarrow> 'a list list" where
  "str_split sep [] = [[]]"
| "str_split sep (c # cs) =
     (if c = sep then [] # str_split sep cs
      else (case str_split sep cs of
              [] \<Rightarrow> [[c]]
            | piece # pieces \<Rightarrow> (c # piece) # pieces))"

text \<open>\<open>sep.join(pieces)\<close>.\<close>

fun str_join :: "string \<Rightarrow> string list \<Rightarrow> string" where
  "str_join sep [] = []"
| "str_join sep [p] = p"
| "str_join sep (p # q # ps) = p @ sep @ str_join sep (q # ps)"

section \<open>Action item extraction\<close>

text \<open>
  What the extraction takes from Python's \<open>str\<close>, for texts over a character type \<open>'c\<close>:
  \<open>text_lower\<close> is \<open>str.lower()\<close>, \<open>text_space\<close> holds of the characters \<open>str.strip()\<close>
  removes, and \<open>text_char\<close> gives the character of an ASCII character of a source literal.
  For Python these are taken at the code points; \<open>char_text\<close> is what they are on the
  strings of the servers' data.
\<close>

record 'c text_lib =
  text_lower :: "'c list \<Rightarrow> 'c list"
  text_space :: "'c \<Rightarrow> bool"
  text_char :: "char \<Rightarrow> 'c"

definition lit :: "'c text_lib \<Rightarrow> string \<Rightarrow> 'c list" where
  "lit L s = map (text_char L) s"

definition char_text :: "char text_lib" where
  "char_text = \<lparr>text_lower = str_lower, text_space = is_space, text_char = (\<lambda>c. c)\<rparr>"

definition action_keywords :: "string list" where
  "action_keywords =
     [''todo'', ''action item'', ''follow up'', ''assign'', ''task'', ''deadline'', ''due'']"

text \<open>
  \<open>NotionMCPServer._extract_action_items_from_text\<close> (notion_server.py). The loop over the
  lines appends to \<open>action_items\<close>; the function returns the first five entries.
\<close>

fun from_text_loop :: "'c text_lib \<Rightarrow> 'c list list \<Rightarrow> 'c list list \<Rightarrow> 'c list list" where
  "from_text_loop L [] action_items = action_items"
| "from_text_loop L (line # lines) action_items =
     (let line_stripped = strip_by (text_space L) line in
      if line_stripped \<noteq> []
         \<and> list_ex (\<lambda>keyword. str_contains line (lit L keyword)) action_keywords
      then
        (let clean_item =
               strip_by (text_space L)
                 (str_remove (lit L ''* '') (str_remove (lit L ''- '') line_stripped)) in
         if clean_item \<noteq> [] \<and> length clean_item > 10
         then from_text_loop L lines (action_items @ [take 100 clean_item])
         else from_text_loop L lines action_items)
      else from_text_loop L lines action_items)"

definition extract_action_items_from_text :: "'c text_lib \<Rightarrow> 'c list \<Rightarrow> 'c list list" where
  "extract_action_items_from_text L text =
     take 5 (from_text_loop L (str_split (text_char L newline) (text_lower L text)) [])"

text \<open>
  \<open>CalendarToNotionWorkflow._extract_action_items_simple\<close> (calendar_to_notion_workflow.py):
  the same scan, with items cut at 80 characters and at most three of them returned.
\<close>

fun simple_loop :: "'c text_lib \<Rightarrow> 'c list list \<Rightarrow> 'c list list \<Rightarrow> 'c list list" where
  "simple_loop L [] action_items = action_items"
| "simple_loop L (line # lines) action_items =
     (let line_stripped = strip_by (text_space L) line in
      if line_stripped \<noteq> []
         \<and> list_ex (\<lambda>keyword. str_contains line (lit L keyword)) action_keywords
      then
        (let clean_item =
               strip_by (text_space L)
                 (str_remove (lit L ''* '') (str_remove (lit L ''- '') line_stripped)) in
         if clean_item \<noteq> [] \<and> length clean_item > 10
         then simple_loop L lines (action_items @ [take 80 clean_item])
         else simple_loop L lines action_items)
      else simple_loop L lines action_items)"

definition extract_action_items_simple :: "'c text_lib \<Rightarrow> 'c list \<Rightarrow> 'c list list" where
  "extract_action_items_simple L text =
     take 3 (simple_loop L (str_split (text_char L newline) (text_lower L text)) [])"

section \<open>Python values and exceptions\<close>

text \<open>
  The values that tool arguments, decoded JSON and request payloads hold. A dictionary is
  an association list in insertion order; a lookup takes the first entry of a key.
  Floating-point numbers do not occur in the data the servers build and are left out.
\<close>

datatype pyval =
    PNone
  | PBool bool
  | PInt int
  | PStr string
  | PList "pyval list"
  | PDict "(string \<times> pyval) list"

text \<open>
  The exceptions the code can meet, each with the text \<open>str(e)\<close> gives; for a
  \<open>KeyError\<close> that is the \<open>repr\<close> of the missing key. \<open>JSONDecodeError\<close> is a subclass of
  \<open>ValueError\<close>; \<open>OtherError\<close>
  stands for every other subclass of \<open>Exception\<close> (transport errors, API errors, a missing
  credentials file).
\<close>

datatype exn =
    KeyError string
  | ValueError string
  | JSONDecodeError string
  | TypeError string
  | AttributeError string
  | IndexError string
  | OtherError string

fun exn_str :: "exn \<Rightarrow> string" where
  "exn_str (KeyError k) = k"
| "exn_str (ValueError m) = m"
| "exn_str (JSONDecodeError m) = m"
| "exn_str (TypeError m) = m"
| "exn_str (AttributeError m) = m"
| "exn_str (IndexError m) = m"
| "exn_str (OtherError m) = m"

fun is_value_error :: "exn \<Rightarrow> bool" where
  "is_value_error (ValueError m) = True"
| "is_value_error (JSONDecodeError m) = True"
| "is_value_error e = False"

fun type_name :: "pyval \<Rightarrow> string" where
  "type_name PNone = ''NoneType''"
| "type_name (PBool b) = ''bool''"
| "type_name (PInt i) = ''int''"
| "type_name (PStr s) = ''str''"
| "type_name (PList xs) = ''list''"
| "type_name (PDict kvs) = ''dict''"

text \<open>
  How the message of a rejected argument names the value it got: the type name, or \<open>None\<close>.
\<close>

definition given_name :: "pyval \<Rightarrow> string" where
  "given_name v = (case v of PNone \<Rightarrow> ''None'' | _ \<Rightarrow> type_name v)"

definition no_attribute :: "pyval \<Rightarrow> string \<Rightarrow> exn" where
  "no_attribute v attr =
     AttributeError ([CHR 0x27] @ type_name v @ [CHR 0x27] @ '' object has no attribute ''
                     @ [CHR 0x27] @ attr @ [CHR 0x27])"

text \<open>Truth value of a Python value, as \<open>if v:\<close> and \<open>not v\<close> test it.\<close>

fun truthy :: "pyval \<Rightarrow> bool" where
  "truthy PNone = False"
| "truthy (PBool b) = b"
| "truthy (PInt i) = (i \<noteq> 0)"
| "truthy (PStr s) = (s \<noteq> [])"
| "truthy (PList xs) = (xs \<noteq> [])"
| "truthy (PDict kvs) = (kvs \<noteq> [])"

text \<open>\<open>d.get(key, default)\<close> and \<open>d[key]\<close> on a real dictionary (the tool arguments).\<close>

definition dict_get :: "(string \<times> pyval) list \<Rightarrow> string \<Rightarrow> pyval \<Rightarrow> pyval" where
  "dict_get d key dflt = (case map_of d key of Some v \<Rightarrow> v | None \<Rightarrow> dflt)"

definition dict_item :: "(string \<times> pyval) list \<Rightarrow> string \<Rightarrow> exn + pyval" where
  "dict_item d key =
     (case map_of d key of
        Some v \<Rightarrow> Inr v
      | None \<Rightarrow> Inl (KeyError ([CHR 0x27] @ key @ [CHR 0x27])))"

text \<open>The same operations on a value of unknown type, with the error Python raises.\<close>

fun py_get :: "pyval \<Rightarrow> string \<Rightarrow> pyval \<Rightarrow> exn + pyval" where
  "py_get (PDict kvs) key dflt = Inr (dict_get kvs key dflt)"
| "py_get v key dflt = Inl (no_attribute v ''get'')"

fun py_item :: "pyval \<Rightarrow> string \<Rightarrow> exn + pyval" where
  "py_item (PDict kvs) key = dict_item kvs key"
| "py_item (PStr s) key =
     Inl (TypeError (''string indices must be integers, not '' @ [CHR 0x27] @ ''str''
                     @ [CHR 0x27]))"
| "py_item (PList xs) key = Inl (TypeError ''list indices must be integers or slices, not str'')"
| "py_item v key =
     Inl (TypeError ([CHR 0x27] @ type_name v @ [CHR 0x27] @ '' object is not subscriptable''))"

text \<open>\<open>v[0]\<close>.\<close>

fun py_first :: "pyval \<Rightarrow> exn + pyval" where
  "py_first (PList []) = Inl (IndexError ''list index out of range'')"
| "py_first (PList (x # xs)) = Inr x"
| "py_first (PStr []) = Inl (IndexError ''string index out of range'')"
| "py_first (PStr (c # cs)) = Inr (PStr [c])"
| "py_first (PDict kvs) = Inl (KeyError ''0'')"
| "py_first v =
     Inl (TypeError ([CHR 0x27] @ type_name v @ [CHR 0x27] @ '' object is not subscriptable''))"

text \<open>\<open>key in v\<close> for a string \<open>key\<close>.\<close>

fun py_contains :: "string \<Rightarrow> pyval \<Rightarrow> exn + bool" where
  "py_contains key (PStr s) = Inr (str_contains s key)"
| "py_contains key (PList xs) = Inr (PStr key \<in> set xs)"
| "py_contains key (PDict kvs) = Inr (key \<in> set (map fst kvs))"
| "py_contains key v =
     Inl (TypeError (''argument of type '' @ [CHR 0x27] @ type_name v @ [CHR 0x27]
                     @ '' is not iterable''))"

text \<open>The elements a \<open>for\<close> loop over \<open>v\<close> visits.\<close>

fun py_iter :: "pyval \<Rightarrow> exn + pyval list" where
  "py_iter (PList xs) = Inr xs"
| "py_iter (PStr s) = Inr (map (\<lambda>c. PStr [c]) s)"
| "py_iter (PDict kvs) = Inr (map (\<lambda>kv. PStr (fst kv)) kvs)"
| "py_iter v =
     Inl (TypeError ([CHR 0x27] @ type_name v @ [CHR 0x27] @ '' object is not iterable''))"

text \<open>The elements of the slice \<open>v[:5]\<close>.\<close>

fun py_first_five :: "pyval \<Rightarrow> exn + pyval list" where
  "py_first_five (PList xs) = Inr (take 5 xs)"
| "py_first_five (PStr s) = Inr (map (\<lambda>c. PStr [c]) (take 5 s))"
| "py_first_five (PDict kvs) =
     Inl (TypeError (''unhashable type: '' @ [CHR 0x27] @ ''slice'' @ [CHR 0x27]))"
| "py_first_five v =
     Inl (TypeError ([CHR 0x27] @ type_name v @ [CHR 0x27] @ '' object is not subscriptable''))"

text \<open>The method \<open>v.lower()\<close>, which only a string has.\<close>

fun py_lower :: "pyval \<Rightarrow> exn + string" where
  "py_lower (PStr s) = Inr (str_lower s)"
| "py_lower v = Inl (no_attribute v ''lower'')"

text \<open>Sequencing of computations that may raise.\<close>

definition and_then :: "exn + 'a \<Rightarrow> ('a \<Rightarrow> exn + 'b) \<Rightarrow> exn + 'b" where
  "and_then m f = (case m of Inl e \<Rightarrow> Inl e | Inr v \<Rightarrow> f v)"

text \<open>Decimal text of a number, as an f-string writes it.\<close>

definition digit_char :: "nat \<Rightarrow> char" where
  "digit_char d = ''0123456789'' ! d"

function str_of_nat :: "nat \<Rightarrow> string" where
  "str_of_nat n =
     (if n < 10 then [digit_char n] else str_of_nat (n div 10) @ [digit_char (n mod 10)])"
  by pat_completeness auto
termination
  by (relation "measure id") auto

declare str_of_nat.simps [simp del]

definition str_of_int :: "int \<Rightarrow> string" where
  "str_of_int i = (if i < 0 then CHR ''-'' # str_of_nat (nat (- i)) else str_of_nat (nat i))"

text \<open>
  \<open>str(v)\<close>, as an f-string interpolates a value. The text of a list or a dictionary is
  the interpreter's \<open>repr\<close>, taken as a parameter.
\<close>

fun py_str :: "(pyval \<Rightarrow> string) \<Rightarrow> pyval \<Rightarrow> string" where
  "py_str repr_of (PStr s) = s"
| "py_str repr_of PNone = ''None''"
| "py_str repr_of (PBool b) = (if b then ''True'' else ''False'')"
| "py_str repr_of (PInt i) = str_of_int i"
| "py_str repr_of v = repr_of v"

datatype text_content = TextContent (content_type: string) (content_text: string)

definition text_message :: "string \<Rightarrow> text_content list" where
  "text_message t = [TextContent ''text'' t]"

section \<open>The task server (notion_server.py)\<close>

text \<open>The glyphs of the message literals, as the bytes of the source file.\<close>

definition ok_mark :: string where
  "ok_mark = [CHR 0xE2, CHR 0x80, CHR 0x9A, CHR 0xC3, CHR 0xBA, CHR 0xC3, CHR 0x96]"

definition err_mark :: string where
  "err_mark = [CHR 0xE2, CHR 0x80, CHR 0x9A, CHR 0xC3, CHR 0xB9, CHR 0xC3, CHR 0xA5]"

definition bullet_mark :: string where
  "bullet_mark = [CHR 0xE2, CHR 0x80, CHR 0x9A, CHR 0xC3, CHR 0x84, CHR 0xC2, CHR 0xA2]"

definition glyph :: "char \<Rightarrow> char \<Rightarrow> char \<Rightarrow> char \<Rightarrow> string" where
  "glyph a b c d = [CHR 0xEF, CHR 0xA3, CHR 0xBF, CHR 0xC3, CHR 0xBC, a, b, c, d]"

definition calendar_mark :: string where
  "calendar_mark = glyph (CHR 0xC3) (CHR 0xAC) (CHR 0xC3) (CHR 0x96)"

definition pin_mark :: string where
  "pin_mark = glyph (CHR 0xC3) (CHR 0xAC) (CHR 0xC3) (CHR 0xA7)"

definition note_mark :: string where
  "note_mark = glyph (CHR 0xC3) (CHR 0xAC) (CHR 0xC3) (CHR 0xB9)"

definition target_mark :: string where
  "target_mark = glyph (CHR 0xC3) (CHR 0xA9) (CHR 0xC3) (CHR 0x98)"

definition chart_mark :: string where
  "chart_mark = glyph (CHR 0xC3) (CHR 0xAC) (CHR 0xC3) (CHR 0xA4)"

definition people_mark :: string where
  "people_mark = glyph (CHR 0xC3) (CHR 0xAB) (CHR 0xE2) (CHR 0x80) @ [CHR 0xA2]"

definition board_mark :: string where
  "board_mark = glyph (CHR 0xC3) (CHR 0xAC) (CHR 0xC3) (CHR 0xA3)"

text \<open>
  The two secrets \<open>NotionMCPServer.__init__\<close> reads with \<open>os.getenv\<close>: \<open>None\<close> when the
  variable is not set.
\<close>

record config =
  notion_api_key :: "string option"
  notion_database_id :: "string option"

definition notion_url :: string where
  "notion_url = ''https://api.notion.com/v1''"

text \<open>\<open>not v\<close> for an optional string: it is \<open>None\<close> or empty.\<close>

definition unset :: "string option \<Rightarrow> bool" where
  "unset v = (v = None \<or> v = Some [])"

definition opt_str :: "string option \<Rightarrow> string" where
  "opt_str v = (case v of None \<Rightarrow> ''None'' | Some s \<Rightarrow> s)"

definition opt_val :: "string option \<Rightarrow> pyval" where
  "opt_val v = (case v of None \<Rightarrow> PNone | Some s \<Rightarrow> PStr s)"

text \<open>
  A call \<open>requests.post(url, headers=..., json=...)\<close> and what comes back: an exception, or
  a response with its status code, its body text and what \<open>response.json()\<close> gives.
\<close>

record http_request =
  url :: string
  headers :: "(string \<times> string) list"
  body :: pyval

datatype http_response =
  Response (status_code: int) (response_text: string) (response_json: "exn + pyval")

text \<open>
  What the server takes from outside the repository: the remote service behind
  \<open>requests.post\<close>, which answers from a state \<open>'w\<close> of its own, the clock, \<open>json.loads\<close>
  (the text of the decoding error, or the decoded value), whether
  \<open>datetime.strptime(s, '%Y-%m-%d')\<close> accepts a string, and \<open>repr\<close>.
\<close>

record 'w lib =
  post :: "http_request \<Rightarrow> 'w \<Rightarrow> (exn + http_response) \<times> 'w"
  now_isoformat :: "'w \<Rightarrow> string"
  now_date :: "'w \<Rightarrow> string"
  json_loads :: "string \<Rightarrow> string + pyval"
  strptime_ok :: "string \<Rightarrow> bool"
  repr_of :: "pyval \<Rightarrow> string"

text \<open>
  The state a tool call runs in: the remote service, and two traces kept for observation
  only, the requests handed to \<open>requests.post\<close> and the argument dictionaries
  \<open>_create_task\<close> was called with, oldest first.
\<close>

record 'w sys =
  remote :: 'w
  sent :: "http_request list"
  task_calls :: "(string \<times> pyval) list list"

definition send :: "'w lib \<Rightarrow> http_request \<Rightarrow> 'w sys \<Rightarrow> (exn + http_response) \<times> 'w sys" where
  "send lib req s =
     (case post lib req (remote s) of
        (outcome, w) \<Rightarrow> (outcome, s\<lparr>remote := w, sent := sent s @ [req]\<rparr>))"

definition get_notion_headers :: "config \<Rightarrow> (string \<times> string) list" where
  "get_notion_headers cfg =
     [(''Authorization'', ''Bearer '' @ opt_str (notion_api_key cfg)),
      (''Content-Type'', ''application/json''),
      (''Notion-Version'', ''2022-06-28'')]"

text \<open>\<open>json.loads(v)\<close> for a value of unknown type.\<close>

definition py_json_loads :: "'w lib \<Rightarrow> pyval \<Rightarrow> exn + pyval" where
  "py_json_loads lib v =
     (case v of
        PStr s \<Rightarrow> (case json_loads lib s of Inl m \<Rightarrow> Inl (JSONDecodeError m) | Inr j \<Rightarrow> Inr j)
      | _ \<Rightarrow> Inl (TypeError (''the JSON object must be str, bytes or bytearray, not ''
                              @ type_name v)))"

subsection \<open>\<open>_create_task\<close>\<close>

text \<open>
  The block "Add due date if provided": a true \<open>due_date\<close> is validated with \<open>strptime\<close>;
  a string it rejects (\<open>ValueError\<close>) is skipped, a value that is not a string makes it
  raise \<open>TypeError\<close>, which the block does not catch.
\<close>

definition due_date_property :: "'w lib \<Rightarrow> pyval \<Rightarrow> exn + (string \<times> pyval) list" where
  "due_date_property lib due_date =
     (if truthy due_date
      then (case due_date of
              PStr d \<Rightarrow>
                Inr (if strptime_ok lib d
                     then [(''Due Date'', PDict [(''date'', PDict [(''start'', due_date)])])]
                     else [])
            | _ \<Rightarrow> Inl (TypeError (''strptime() argument 1 must be str, not ''
                                    @ given_name due_date)))
      else Inr [])"

text \<open>The block "Add description if provided".\<close>

definition children_of :: "pyval \<Rightarrow> (string \<times> pyval) list" where
  "children_of description =
     (if truthy description
      then [(''children'',
             PList [PDict [(''object'', PStr ''block''),
                           (''type'', PStr ''paragraph''),
                           (''paragraph'',
                            PDict [(''rich_text'',
                                    PList [PDict [(''type'', PStr ''text''),
                                                  (''text'', PDict [(''content'', description)])]])])]])]
      else [])"

text \<open>The five properties every payload starts with.\<close>

definition base_properties ::
  "pyval \<Rightarrow> pyval \<Rightarrow> pyval \<Rightarrow> string \<Rightarrow> (string \<times> pyval) list" where
  "base_properties title priority source now =
     [(''Name'', PDict [(''title'', PList [PDict [(''text'', PDict [(''content'', title)])]])]),
      (''Status'', PDict [(''select'', PDict [(''name'', PStr ''Not started'')])]),
      (''Priority'', PDict [(''select'', PDict [(''name'', priority)])]),
      (''Source'', PDict [(''select'', PDict [(''name'', source)])]),
      (''Created'', PDict [(''date'', PDict [(''start'', PStr now)])])]"

text \<open>The final \<open>try\<close> block, once the request has come back: the text returned.\<close>

definition create_task_reply :: "'w lib \<Rightarrow> pyval \<Rightarrow> exn + http_response \<Rightarrow> string" where
  "create_task_reply lib title outcome =
     (case outcome of
        Inl e \<Rightarrow> err_mark @ '' Error creating task: '' @ exn_str e
      | Inr response \<Rightarrow>
          if status_code response = 200
          then (case and_then (response_json response) (\<lambda>result. py_item result ''id'') of
                  Inl e \<Rightarrow> err_mark @ '' Error creating task: '' @ exn_str e
                | Inr page_id \<Rightarrow>
                    ok_mark @ '' Task created successfully: '' @ [CHR 0x27]
                    @ py_str (repr_of lib) title @ [CHR 0x27, newline]
                    @ ''Page ID: '' @ py_str (repr_of lib) page_id)
          else err_mark @ '' Error creating task: '' @ str_of_int (status_code response)
               @ '' - '' @ response_text response)"

definition create_task ::
  "'w lib \<Rightarrow> config \<Rightarrow> (string \<times> pyval) list \<Rightarrow> 'w sys
   \<Rightarrow> (exn + text_content list) \<times> 'w sys" where
  "create_task lib cfg arguments s0 =
     (let s = s0\<lparr>task_calls := task_calls s0 @ [arguments]\<rparr> in
      if unset (notion_api_key cfg) \<or> unset (notion_database_id cfg)
      then (Inr (text_message ''Error: Notion API key or database ID not configured.''), s)
      else
        (case dict_item arguments ''title'' of
           Inl e \<Rightarrow> (Inl e, s)
         | Inr title \<Rightarrow>
             (let description = dict_get arguments ''description'' (PStr []);
                  due_date = dict_get arguments ''due_date'' (PStr []);
                  priority = dict_get arguments ''priority'' (PStr ''Medium'');
                  source = dict_get arguments ''source'' (PStr ''Calendar'');
                  properties = base_properties title priority source (now_isoformat lib (remote s))
              in case due_date_property lib due_date of
                   Inl e \<Rightarrow> (Inl e, s)
                 | Inr due \<Rightarrow>
                     (let payload =
                            PDict ([(''parent'',
                                     PDict [(''database_id'', opt_val (notion_database_id cfg))]),
                                    (''properties'', PDict (properties @ due))]
                                   @ children_of description)
                      in case send lib \<lparr>url = notion_url @ ''/pages'',
                                          headers = get_notion_headers cfg,
                                          body = payload\<rparr> s of
                           (outcome, s') \<Rightarrow>
                             (Inr (text_message (create_task_reply lib title outcome)), s')))))"

subsection \<open>\<open>_create_tasks_from_calendar_events\<close>\<close>

text \<open>
  The block "Extract date from start_time for due date". Its \<open>try\<close> has a bare \<open>except\<close> that
  passes, so a \<open>start_time\<close> that supports neither \<open>in\<close> nor \<open>split\<close> leaves the empty string.
\<close>

definition due_date_of :: "pyval \<Rightarrow> pyval" where
  "due_date_of start_time =
     (if truthy start_time
      then (case py_contains ''T'' start_time of
              Inl e \<Rightarrow> PStr []
            | Inr True \<Rightarrow>
                (case start_time of
                   PStr st \<Rightarrow> (case str_split (CHR ''T'') st of
                                 [] \<Rightarrow> PStr []
                               | date # rest \<Rightarrow> PStr date)
                 | _ \<Rightarrow> PStr [])
            | Inr False \<Rightarrow> start_time)
      else PStr [])"

definition main_task_args :: "'w lib \<Rightarrow> pyval \<Rightarrow> pyval \<Rightarrow> pyval \<Rightarrow> pyval \<Rightarrow> (string \<times> pyval) list" where
  "main_task_args lib title description location due_date =
     [(''title'', PStr (calendar_mark @ '' '' @ py_str (repr_of lib) title)),
      (''description'',
       PStr (calendar_mark @ '' Calendar Event'' @ [newline]
             @ (if location \<noteq> PStr ''No location specified''
                then pin_mark @ '' Location: '' @ py_str (repr_of lib) location @ [newline]
                else [])
             @ (if description \<noteq> PStr ''No description''
                then note_mark @ '' Notes: '' @ py_str (repr_of lib) description @ [newline]
                else []))),
      (''due_date'', due_date),
      (''priority'', PStr ''Medium''),
      (''source'', PStr ''Calendar'')]"

definition action_task_args :: "'w lib \<Rightarrow> pyval \<Rightarrow> pyval \<Rightarrow> pyval \<Rightarrow> (string \<times> pyval) list" where
  "action_task_args lib item title due_date =
     [(''title'', PStr (target_mark @ '' '' @ py_str (repr_of lib) item)),
      (''description'', PStr (''Action item from meeting: '' @ py_str (repr_of lib) title)),
      (''due_date'', due_date),
      (''priority'', PStr ''High''),
      (''source'', PStr ''Meeting'')]"

text \<open>The inner loop \<open>for item in action_items\<close>, appending to \<open>created_tasks\<close>.\<close>

fun action_items_loop ::
  "'w lib \<Rightarrow> config \<Rightarrow> pyval \<Rightarrow> pyval \<Rightarrow> string list \<Rightarrow> string list \<Rightarrow> 'w sys
   \<Rightarrow> (exn + string list) \<times> 'w sys" where
  "action_items_loop lib cfg title due_date [] created_tasks s = (Inr created_tasks, s)"
| "action_items_loop lib cfg title due_date (item # items) created_tasks s =
     (case create_task lib cfg (action_task_args lib (PStr item) title due_date) s of
        (Inl e, s') \<Rightarrow> (Inl e, s')
      | (Inr result, s') \<Rightarrow>
          action_items_loop lib cfg title due_date items
            (created_tasks @ [''Action: '' @ item]) s')"

text \<open>One turn of the loop \<open>for event in events\<close>.\<close>

definition event_step ::
  "'w lib \<Rightarrow> config \<Rightarrow> pyval \<Rightarrow> pyval \<Rightarrow> string list \<Rightarrow> 'w sys
   \<Rightarrow> (exn + string list) \<times> 'w sys" where
  "event_step lib cfg extract_action_items event created_tasks s =
     (case event of
        PDict kvs \<Rightarrow>
          (let title = dict_get kvs ''title'' (PStr ''Untitled Event'');
               description = dict_get kvs ''description'' (PStr []);
               start_time = dict_get kvs ''start_time'' (PStr []);
               location = dict_get kvs ''location'' (PStr []);
               due_date = due_date_of start_time
           in case create_task lib cfg (main_task_args lib title description location due_date) s of
                (Inl e, s') \<Rightarrow> (Inl e, s')
              | (Inr result, s') \<Rightarrow>
                  (let created = created_tasks @ [''Event: '' @ py_str (repr_of lib) title] in
                   if truthy extract_action_items \<and> description \<noteq> PStr ''No description''
                   then (case description of
                           PStr d \<Rightarrow>
                             action_items_loop lib cfg title due_date
                               (extract_action_items_from_text char_text d) created s'
                         | _ \<Rightarrow> (Inl (no_attribute description ''lower''), s'))
                   else (Inr created, s')))
      | _ \<Rightarrow> (Inl (no_attribute event ''get''), s))"

fun events_loop ::
  "'w lib \<Rightarrow> config \<Rightarrow> pyval \<Rightarrow> pyval list \<Rightarrow> string list \<Rightarrow> 'w sys
   \<Rightarrow> (exn + string list) \<times> 'w sys" where
  "events_loop lib cfg extract_action_items [] created_tasks s = (Inr created_tasks, s)"
| "events_loop lib cfg extract_action_items (event # events) created_tasks s =
     (case event_step lib cfg extract_action_items event created_tasks s of
        (Inl e, s') \<Rightarrow> (Inl e, s')
      | (Inr created, s') \<Rightarrow> events_loop lib cfg extract_action_items events created s')"

definition created_summary :: "string list \<Rightarrow> string" where
  "created_summary created_tasks =
     ok_mark @ '' Created '' @ str_of_nat (length created_tasks)
     @ '' tasks from calendar events:'' @ [newline]
     @ str_join [newline] (map (\<lambda>task. bullet_mark @ '' '' @ task) created_tasks)"

text \<open>The two \<open>except\<close> clauses of the function.\<close>

definition events_failure :: "exn \<Rightarrow> string" where
  "events_failure e =
     (case e of
        JSONDecodeError m \<Rightarrow> err_mark @ '' Error: Invalid JSON format for events.''
      | _ \<Rightarrow> err_mark @ '' Error creating tasks from events: '' @ exn_str e)"

definition create_tasks_from_calendar_events ::
  "'w lib \<Rightarrow> config \<Rightarrow> (string \<times> pyval) list \<Rightarrow> 'w sys
   \<Rightarrow> (exn + text_content list) \<times> 'w sys" where
  "create_tasks_from_calendar_events lib cfg arguments s =
     (case dict_item arguments ''events'' of
        Inl e \<Rightarrow> (Inl e, s)
      | Inr events_json \<Rightarrow>
          (let extract_action_items = dict_get arguments ''extract_action_items'' (PBool True) in
           case and_then (py_json_loads lib events_json) py_iter of
             Inl e \<Rightarrow> (Inr (text_message (events_failure e)), s)
           | Inr events \<Rightarrow>
               (case events_loop lib cfg extract_action_items events [] s of
                  (Inl e, s') \<Rightarrow> (Inr (text_message (events_failure e)), s')
                | (Inr created_tasks, s') \<Rightarrow>
                    (Inr (text_message (created_summary created_tasks)), s'))))"

subsection \<open>\<open>_create_meeting_summary\<close>\<close>

text \<open>
  The text of the summary task. \<open>shown\<close> are the elements of \<open>action_items[:5]\<close>, which the
  function lists when \<open>action_items\<close> is true.
\<close>

definition meeting_description_of ::
  "'w lib \<Rightarrow> pyval \<Rightarrow> pyval \<Rightarrow> pyval \<Rightarrow> pyval list \<Rightarrow> string" where
  "meeting_description_of lib attendees summary action_items shown =
     chart_mark @ '' Meeting Summary'' @ [newline]
     @ (if truthy attendees
        then people_mark @ '' Attendees: '' @ py_str (repr_of lib) attendees @ [newline]
        else [])
     @ note_mark @ '' Summary:'' @ [newline] @ py_str (repr_of lib) summary @ [newline]
     @ (if truthy action_items
        then [newline] @ target_mark @ '' Action Items:'' @ [newline]
             @ concat (map (\<lambda>item. bullet_mark @ '' '' @ py_str (repr_of lib) item @ [newline])
                         shown)
        else [])"

text \<open>The loop "Create individual action item tasks", counting in \<open>created_actions\<close>.\<close>

fun summary_actions_loop ::
  "'w lib \<Rightarrow> config \<Rightarrow> pyval \<Rightarrow> pyval \<Rightarrow> pyval list \<Rightarrow> nat \<Rightarrow> 'w sys
   \<Rightarrow> (exn + nat) \<times> 'w sys" where
  "summary_actions_loop lib cfg meeting_title meeting_date [] created_actions s =
     (Inr created_actions, s)"
| "summary_actions_loop lib cfg meeting_title meeting_date (item # items) created_actions s =
     (case create_task lib cfg (action_task_args lib item meeting_title meeting_date) s of
        (Inl e, s') \<Rightarrow> (Inl e, s')
      | (Inr result, s') \<Rightarrow>
          summary_actions_loop lib cfg meeting_title meeting_date items (created_actions + 1) s')"

definition summary_failure :: "exn \<Rightarrow> string" where
  "summary_failure e = err_mark @ '' Error creating meeting summary: '' @ exn_str e"

definition create_meeting_summary ::
  "'w lib \<Rightarrow> config \<Rightarrow> (string \<times> pyval) list \<Rightarrow> 'w sys
   \<Rightarrow> (exn + text_content list) \<times> 'w sys" where
  "create_meeting_summary lib cfg arguments s =
     (case dict_item arguments ''meeting_title'' of
        Inl e \<Rightarrow> (Inl e, s)
      | Inr meeting_title \<Rightarrow>
          (let meeting_date = dict_get arguments ''meeting_date'' (PStr (now_date lib (remote s)));
               attendees = dict_get arguments ''attendees'' (PStr [])
           in case dict_item arguments ''summary'' of
                Inl e \<Rightarrow> (Inl e, s)
              | Inr summary \<Rightarrow>
                  (let action_items_json = dict_get arguments ''action_items'' (PStr ''[]'') in
                   case (if truthy action_items_json
                         then py_json_loads lib action_items_json
                         else Inr (PList [])) of
                     Inl e \<Rightarrow> (Inr (text_message (summary_failure e)), s)
                   | Inr action_items \<Rightarrow>
                       (case (if truthy action_items then py_first_five action_items
                              else Inr []) of
                          Inl e \<Rightarrow> (Inr (text_message (summary_failure e)), s)
                        | Inr shown \<Rightarrow>
                            (let summary_task_args =
                                   [(''title'',
                                     PStr (chart_mark @ '' Meeting Summary: ''
                                           @ py_str (repr_of lib) meeting_title)),
                                    (''description'',
                                     PStr (meeting_description_of lib attendees summary
                                             action_items shown)),
                                    (''due_date'', meeting_date),
                                    (''priority'', PStr ''Medium''),
                                    (''source'', PStr ''Meeting'')]
                             in case create_task lib cfg summary_task_args s of
                                  (Inl e, s') \<Rightarrow> (Inr (text_message (summary_failure e)), s')
                                | (Inr result, s') \<Rightarrow>
                                    (case py_first_five action_items of
                                       Inl e \<Rightarrow> (Inr (text_message (summary_failure e)), s')
                                     | Inr items \<Rightarrow>
                                         (case summary_actions_loop lib cfg meeting_title
                                                 meeting_date items 0 s' of
                                            (Inl e, s'') \<Rightarrow>
                                              (Inr (text_message (summary_failure e)), s'')
                                          | (Inr created_actions, s'') \<Rightarrow>
                                              (Inr (text_message
                                                      (ok_mark @ '' Created meeting summary and ''
                                                       @ str_of_nat created_actions
                                                       @ '' action items for: ''
                                                       @ py_str (repr_of lib) meeting_title)),
                                               s''))))))))"

subsection \<open>\<open>_get_tasks\<close>\<close>

text \<open>
  The query payload: at most ten records, and a filter on the priority when \<open>filter_by\<close>
  is true and its lower-cased text is one of the three priorities. \<open>filter_by.lower()\<close>
  raises for a value that is not a string.
\<close>

definition tasks_query :: "pyval \<Rightarrow> exn + pyval" where
  "tasks_query filter_by =
     (if truthy filter_by
      then and_then (py_lower filter_by) (\<lambda>lowered.
             if lowered \<in> set [''high'', ''medium'', ''low'']
             then (case filter_by of
                     PStr f \<Rightarrow>
                       Inr (PDict [(''page_size'', PInt 10),
                                   (''filter'',
                                    PDict [(''property'', PStr ''Priority''),
                                           (''select'', PDict [(''equals'', PStr (str_title f))])])])
                   | _ \<Rightarrow> Inl (no_attribute filter_by ''title''))
             else Inr (PDict [(''page_size'', PInt 10)]))
      else Inr (PDict [(''page_size'', PInt 10)]))"

text \<open>
  The name of a select property of a page (\<open>Status\<close>, \<open>Priority\<close>), or \<open>Unknown\<close>:
  \<open>if prop in properties and properties[prop].get('select'): ... ['select']['name']\<close>.
\<close>

definition select_name :: "pyval \<Rightarrow> string \<Rightarrow> exn + pyval" where
  "select_name properties prop =
     and_then (py_contains prop properties) (\<lambda>present.
       if present
       then and_then (py_item properties prop) (\<lambda>p.
              and_then (py_get p ''select'' PNone) (\<lambda>selected.
                if truthy selected
                then and_then (py_item p ''select'') (\<lambda>sel. py_item sel ''name'')
                else Inr (PStr ''Unknown'')))
       else Inr (PStr ''Unknown''))"

definition page_title :: "pyval \<Rightarrow> exn + pyval" where
  "page_title properties =
     and_then (py_contains ''Name'' properties) (\<lambda>present.
       if present
       then and_then (py_item properties ''Name'') (\<lambda>p.
              and_then (py_get p ''title'' PNone) (\<lambda>titled.
                if truthy titled
                then and_then (py_item p ''title'') (\<lambda>t.
                       and_then (py_first t) (\<lambda>first.
                         and_then (py_item first ''text'') (\<lambda>txt. py_item txt ''content'')))
                else Inr (PStr ''Untitled'')))
       else Inr (PStr ''Untitled''))"

definition task_line :: "'w lib \<Rightarrow> pyval \<Rightarrow> exn + string" where
  "task_line lib page =
     and_then (py_get page ''properties'' (PDict [])) (\<lambda>properties.
       and_then (page_title properties) (\<lambda>title.
         and_then (select_name properties ''Status'') (\<lambda>status.
           and_then (select_name properties ''Priority'') (\<lambda>priority.
             Inr (bullet_mark @ '' '' @ py_str (repr_of lib) title
                  @ '' ['' @ py_str (repr_of lib) status @ ''] - ''
                  @ py_str (repr_of lib) priority @ '' priority'')))))"

fun pages_loop :: "'w lib \<Rightarrow> pyval list \<Rightarrow> string list \<Rightarrow> exn + string list" where
  "pages_loop lib [] tasks = Inr tasks"
| "pages_loop lib (page # pages) tasks =
     and_then (task_line lib page) (\<lambda>line. pages_loop lib pages (tasks @ [line]))"

definition tasks_failure :: "exn \<Rightarrow> string" where
  "tasks_failure e = err_mark @ '' Error fetching tasks: '' @ exn_str e"

text \<open>What the function returns once the request has come back.\<close>

definition get_tasks_reply :: "'w lib \<Rightarrow> exn + http_response \<Rightarrow> string" where
  "get_tasks_reply lib outcome =
     (case outcome of
        Inl e \<Rightarrow> tasks_failure e
      | Inr response \<Rightarrow>
          if status_code response = 200
          then (case and_then (response_json response) (\<lambda>data.
                       and_then (py_get data ''results'' (PList [])) (\<lambda>results.
                         and_then (py_iter results) (\<lambda>pages. pages_loop lib pages []))) of
                  Inl e \<Rightarrow> tasks_failure e
                | Inr tasks \<Rightarrow>
                    if tasks \<noteq> []
                    then board_mark @ '' Found '' @ str_of_nat (length tasks) @ '' tasks:''
                         @ [newline] @ str_join [newline] tasks
                    else board_mark @ '' No tasks found in the database.'')
          else err_mark @ '' Error fetching tasks: '' @ str_of_int (status_code response)
               @ '' - '' @ response_text response)"

definition get_tasks ::
  "'w lib \<Rightarrow> config \<Rightarrow> (string \<times> pyval) list \<Rightarrow> 'w sys
   \<Rightarrow> (exn + text_content list) \<times> 'w sys" where
  "get_tasks lib cfg arguments s =
     (let filter_by = dict_get arguments ''filter_by'' (PStr []) in
      case tasks_query filter_by of
        Inl e \<Rightarrow> (Inr (text_message (tasks_failure e)), s)
      | Inr payload \<Rightarrow>
          (case send lib \<lparr>url = notion_url @ ''/databases/''
                                 @ opt_str (notion_database_id cfg) @ ''/query'',
                           headers = get_notion_headers cfg,
                           body = payload\<rparr> s of
             (outcome, s') \<Rightarrow> (Inr (text_message (get_tasks_reply lib outcome)), s')))"

subsection \<open>\<open>handle_call_tool\<close> of the task server\<close>

definition notion_dispatch ::
  "'w lib \<Rightarrow> config \<Rightarrow> string \<Rightarrow> (string \<times> pyval) list \<Rightarrow> 'w sys
   \<Rightarrow> (exn + text_content list) \<times> 'w sys" where
  "notion_dispatch lib cfg name arguments s =
     (if name = ''create_task'' then create_task lib cfg arguments s
      else if name = ''create_tasks_from_calendar_events''
      then create_tasks_from_calendar_events lib cfg arguments s
      else if name = ''create_meeting_summary'' then create_meeting_summary lib cfg arguments s
      else if name = ''get_tasks'' then get_tasks lib cfg arguments s
      else (Inl (ValueError (''Unknown tool: '' @ name)), s))"

definition notion_handle_call_tool ::
  "'w lib \<Rightarrow> config \<Rightarrow> string \<Rightarrow> (string \<times> pyval) list option \<Rightarrow> 'w sys
   \<Rightarrow> text_content list \<times> 'w sys" where
  "notion_handle_call_tool lib cfg name arguments s =
     (let arguments = (case arguments of None \<Rightarrow> [] | Some given \<Rightarrow> given) in
      case notion_dispatch lib cfg name arguments s of
        (Inr result, s') \<Rightarrow> (result, s')
      | (Inl e, s') \<Rightarrow>
          (text_message (''Error executing '' @ name @ '': '' @ exn_str e), s'))"

section \<open>The calendar server (calendar_server.py)\<close>

text \<open>
  What the server takes from outside the repository. \<open>authenticate\<close> is the token file and
  OAuth exchange of \<open>_authenticate_google_calendar\<close>, which raises or leaves a service
  object in \<open>self.service\<close>; \<open>events_list\<close> is
  \<open>service.events().list(calendarId, timeMin, timeMax, ...).execute()\<close>; \<open>today_bounds\<close> gives
  the two ISO texts of today's and tomorrow's midnight; \<open>day_bounds\<close> is \<open>strptime\<close> on the
  requested date followed by the same two texts, or the text of its \<open>ValueError\<close>;
  \<open>json_dumps\<close> is \<open>json.dumps(v, indent=2)\<close>.
\<close>

record 'w cal_lib =
  authenticate :: "'w \<Rightarrow> exn option \<times> 'w"
  events_list :: "pyval \<Rightarrow> string \<Rightarrow> string \<Rightarrow> 'w \<Rightarrow> (exn + pyval) \<times> 'w"
  today_bounds :: "'w \<Rightarrow> string \<times> string"
  day_bounds :: "string \<Rightarrow> string + (string \<times> string)"
  json_dumps :: "pyval \<Rightarrow> string"

record 'w cal =
  service :: bool
  outside :: 'w

text \<open>\<open>if not self.service: await self._authenticate_google_calendar()\<close>.\<close>

definition ensure_service :: "'w cal_lib \<Rightarrow> 'w cal \<Rightarrow> exn option \<times> 'w cal" where
  "ensure_service lib s =
     (if service s then (None, s)
      else (case authenticate lib (outside s) of
              (Some e, w) \<Rightarrow> (Some e, s\<lparr>outside := w\<rparr>)
            | (None, w) \<Rightarrow> (None, s\<lparr>service := True, outside := w\<rparr>)))"

text \<open>The comprehension \<open>[attendee.get('email') for attendee in ...]\<close>.\<close>

fun attendee_emails :: "pyval list \<Rightarrow> exn + pyval list" where
  "attendee_emails [] = Inr []"
| "attendee_emails (attendee # attendees) =
     and_then (py_get attendee ''email'' PNone) (\<lambda>email.
       and_then (attendee_emails attendees) (\<lambda>emails. Inr (email # emails)))"

text \<open>
  The body of the loop "Format events", which \<open>_get_todays_events\<close> and
  \<open>_get_events_by_date\<close> both hold: the \<open>event_info\<close> dictionary of one raw event.
\<close>

definition event_info :: "pyval \<Rightarrow> exn + pyval" where
  "event_info event =
     and_then (py_item event ''start'') (\<lambda>start_obj.
       and_then (py_get start_obj ''date'' PNone) (\<lambda>date.
         and_then (py_get start_obj ''dateTime'' date) (\<lambda>start.
           and_then (py_get event ''summary'' (PStr ''No title'')) (\<lambda>summary.
             and_then (py_get event ''description'' (PStr ''No description'')) (\<lambda>description.
               and_then (py_get event ''location'' (PStr ''No location specified'')) (\<lambda>location.
                 and_then (py_get event ''attendees'' (PList [])) (\<lambda>listed.
                   and_then (py_iter listed) (\<lambda>attendees.
                     and_then (attendee_emails attendees) (\<lambda>emails.
                       Inr (PDict [(''title'', summary),
                                   (''start_time'', start),
                                   (''description'', description),
                                   (''location'', location),
                                   (''attendees'', PList emails)]))))))))))"

fun format_events :: "pyval list \<Rightarrow> pyval list \<Rightarrow> exn + pyval list" where
  "format_events [] event_list = Inr event_list"
| "format_events (event # events) event_list =
     and_then (event_info event) (\<lambda>info. format_events events (event_list @ [info]))"

text \<open>
  The part of both functions after the API call: \<open>none_found\<close> is the text returned when
  there are no events.
\<close>

definition events_reply :: "'w cal_lib \<Rightarrow> string \<Rightarrow> exn + pyval \<Rightarrow> exn + string" where
  "events_reply lib none_found events_result =
     and_then events_result (\<lambda>result.
       and_then (py_get result ''items'' (PList [])) (\<lambda>events.
         if \<not> truthy events then Inr none_found
         else and_then (py_iter events) (\<lambda>raw.
                and_then (format_events raw []) (\<lambda>event_list.
                  Inr (json_dumps lib (PList event_list))))))"

definition get_todays_events ::
  "'w cal_lib \<Rightarrow> (string \<times> pyval) list \<Rightarrow> 'w cal \<Rightarrow> (exn + text_content list) \<times> 'w cal" where
  "get_todays_events lib arguments s =
     (case ensure_service lib s of
        (Some e, s1) \<Rightarrow> (Inl e, s1)
      | (None, s1) \<Rightarrow>
          (let calendar_id = dict_get arguments ''calendar_id'' (PStr ''primary'') in
           case today_bounds lib (outside s1) of
             (today_iso, tomorrow_iso) \<Rightarrow>
               (case events_list lib calendar_id today_iso tomorrow_iso (outside s1) of
                  (events_result, w) \<Rightarrow>
                    (Inr (text_message
                            (case events_reply lib ''No events found for today.'' events_result of
                               Inl e \<Rightarrow> ''Error fetching events: '' @ exn_str e
                             | Inr reply \<Rightarrow> reply)),
                     s1\<lparr>outside := w\<rparr>))))"

text \<open>The two \<open>except\<close> clauses of \<open>_get_events_by_date\<close>: \<open>ValueError\<close> first.\<close>

definition date_failure :: "exn \<Rightarrow> string" where
  "date_failure e =
     (if is_value_error e then ''Invalid date format. Please use YYYY-MM-DD.''
      else ''Error fetching events: '' @ exn_str e)"

definition get_events_by_date ::
  "'w cal_lib \<Rightarrow> (string \<times> pyval) list \<Rightarrow> 'w cal \<Rightarrow> (exn + text_content list) \<times> 'w cal" where
  "get_events_by_date lib arguments s =
     (case ensure_service lib s of
        (Some e, s1) \<Rightarrow> (Inl e, s1)
      | (None, s1) \<Rightarrow>
          (case dict_item arguments ''date'' of
             Inl e \<Rightarrow> (Inl e, s1)
           | Inr date_value \<Rightarrow>
               (let calendar_id = dict_get arguments ''calendar_id'' (PStr ''primary'') in
                case date_value of
                  PStr date_str \<Rightarrow>
                    (case day_bounds lib date_str of
                       Inl m \<Rightarrow> (Inr (text_message (date_failure (ValueError m))), s1)
                     | Inr (start_iso, end_iso) \<Rightarrow>
                         (case events_list lib calendar_id start_iso end_iso (outside s1) of
                            (events_result, w) \<Rightarrow>
                              (Inr (text_message
                                      (case events_reply lib
                                              (''No events found for '' @ date_str @ ''.'')
                                              events_result of
                                         Inl e \<Rightarrow> date_failure e
                                       | Inr reply \<Rightarrow> reply)),
                               s1\<lparr>outside := w\<rparr>)))
                | _ \<Rightarrow>
                    (Inr (text_message
                            (date_failure
                               (TypeError (''strptime() argument 1 must be str, not ''
                                           @ given_name date_value)))),
                     s1))))"

definition topic_keywords :: "string list" where
  "topic_keywords =
     [''discuss'', ''review'', ''plan'', ''strategy'', ''budget'', ''timeline'', ''project'']"

definition extract_meeting_details ::
  "'w cal_lib \<Rightarrow> (string \<times> pyval) list \<Rightarrow> exn + text_content list" where
  "extract_meeting_details lib arguments =
     and_then (dict_item arguments ''event_text'') (\<lambda>event_text.
       and_then (py_lower event_text) (\<lambda>lowered.
         (let lines = str_split newline lowered;
              potential_action_items =
                map str_strip
                  (filter (\<lambda>line. list_ex (\<lambda>keyword. str_contains line keyword) action_keywords)
                     lines);
              key_topics =
                map str_strip
                  (filter (\<lambda>line. list_ex (\<lambda>keyword. str_contains (str_lower line) keyword)
                                     topic_keywords)
                     lines)
          in Inr (text_message
                    (json_dumps lib
                       (PDict [(''summary'', PStr ''Meeting details extracted''),
                               (''potential_action_items'', PList (map PStr potential_action_items)),
                               (''key_topics'', PList (map PStr key_topics)),
                               (''attendees_mentioned'', PList [])]))))))"

definition calendar_dispatch ::
  "'w cal_lib \<Rightarrow> string \<Rightarrow> (string \<times> pyval) list \<Rightarrow> 'w cal
   \<Rightarrow> (exn + text_content list) \<times> 'w cal" where
  "calendar_dispatch lib name arguments s =
     (if name = ''get_todays_events'' then get_todays_events lib arguments s
      else if name = ''get_events_by_date'' then get_events_by_date lib arguments s
      else if name = ''extract_meeting_details'' then (extract_meeting_details lib arguments, s)
      else (Inl (ValueError (''Unknown tool: '' @ name)), s))"

definition calendar_handle_call_tool ::
  "'w cal_lib \<Rightarrow> string \<Rightarrow> (string \<times> pyval) list option \<Rightarrow> 'w cal
   \<Rightarrow> text_content list \<times> 'w cal" where
  "calendar_handle_call_tool lib name arguments s =
     (let arguments = (case arguments of None \<Rightarrow> [] | Some given \<Rightarrow> given) in
      case calendar_dispatch lib name arguments s of
        (Inr result, s') \<Rightarrow> (result, s')
      | (Inl e, s') \<Rightarrow>
          (text_message (''Error executing '' @ name @ '': '' @ exn_str e), s'))"

section \<open>The workflow (calendar_to_notion_workflow.py)\<close>

text \<open>
  \<open>_create_meeting_summaries\<close> talks to the task server through an MCP session. From outside
  the repository it takes \<open>session.call_tool\<close>, which raises or returns the contents of the
  result, today's date as \<open>strftime('%Y-%m-%d')\<close> writes it, \<open>json.dumps\<close> and \<open>repr\<close>.
  The state holds the session, the lines printed, and, for observation only, the tool calls
  made.
\<close>

record 'c wf_lib =
  call_tool :: "string \<Rightarrow> (string \<times> pyval) list \<Rightarrow> 'c \<Rightarrow> (exn + text_content list) \<times> 'c"
  today :: "'c \<Rightarrow> string"
  dumps :: "pyval \<Rightarrow> string"
  wf_repr :: "pyval \<Rightarrow> string"

record 'c client =
  session :: 'c
  printed :: "string list"
  tool_calls :: "(string \<times> (string \<times> pyval) list) list"

definition wf_chart_mark :: string where
  "wf_chart_mark = [CHR 0xF0, CHR 0x9F, CHR 0x93, CHR 0x8A]"

definition wf_err_mark :: string where
  "wf_err_mark = [CHR 0xE2, CHR 0x9D, CHR 0x8C]"

text \<open>\<open>len(v)\<close>.\<close>

fun py_len :: "pyval \<Rightarrow> exn + nat" where
  "py_len (PStr s) = Inr (length s)"
| "py_len (PList xs) = Inr (length xs)"
| "py_len (PDict kvs) = Inr (length kvs)"
| "py_len v =
     Inl (TypeError (''object of type '' @ [CHR 0x27] @ type_name v @ [CHR 0x27]
                     @ '' has no len()''))"

text \<open>\<open>", ".join(v)\<close>: every element has to be a string.\<close>

fun joined_items :: "nat \<Rightarrow> pyval list \<Rightarrow> exn + string list" where
  "joined_items i [] = Inr []"
| "joined_items i (PStr s # vs) = and_then (joined_items (i + 1) vs) (\<lambda>ss. Inr (s # ss))"
| "joined_items i (v # vs) =
     Inl (TypeError (''sequence item '' @ str_of_nat i @ '': expected str instance, ''
                     @ type_name v @ '' found''))"

definition py_join :: "string \<Rightarrow> pyval \<Rightarrow> exn + string" where
  "py_join sep v =
     (case v of
        PNone \<Rightarrow> Inl (TypeError ''can only join an iterable'')
      | PBool b \<Rightarrow> Inl (TypeError ''can only join an iterable'')
      | PInt i \<Rightarrow> Inl (TypeError ''can only join an iterable'')
      | _ \<Rightarrow> and_then (py_iter v) (\<lambda>vs.
               and_then (joined_items 0 vs) (\<lambda>ss. Inr (str_join sep ss))))"

text \<open>
  The block "Extract date from start_time": today's date unless \<open>start_time\<close> is true; the
  bare \<open>except\<close> keeps today's date.
\<close>

definition meeting_date_of :: "string \<Rightarrow> pyval \<Rightarrow> pyval" where
  "meeting_date_of today_text start_time =
     (if truthy start_time
      then (case py_contains ''T'' start_time of
              Inl e \<Rightarrow> PStr today_text
            | Inr True \<Rightarrow>
                (case start_time of
                   PStr st \<Rightarrow> (case str_split (CHR ''T'') st of
                                 [] \<Rightarrow> PStr today_text
                               | date # rest \<Rightarrow> PStr date)
                 | _ \<Rightarrow> PStr today_text)
            | Inr False \<Rightarrow> start_time)
      else PStr today_text)"

definition meeting_keywords :: "string list" where
  "meeting_keywords = [''meeting'', ''discuss'', ''review'', ''action'', ''todo'', ''follow'']"

text \<open>
  The test "Only create summaries for events that look like meetings". With an empty
  keyword list \<open>description.lower()\<close> would not be evaluated; the list is not empty.
\<close>

definition looks_like_meeting :: "pyval \<Rightarrow> exn + bool" where
  "looks_like_meeting description =
     (if description \<noteq> PStr ''No description''
      then and_then (py_len description) (\<lambda>n.
             if n > 50
             then and_then (py_lower description) (\<lambda>lowered.
                    Inr (list_ex (\<lambda>keyword. str_contains lowered keyword) meeting_keywords))
             else Inr False)
      else Inr False)"

definition print_line :: "string \<Rightarrow> 'c client \<Rightarrow> 'c client" where
  "print_line l s = s\<lparr>printed := printed s @ [l]\<rparr>"

fun print_contents :: "text_content list \<Rightarrow> 'c client \<Rightarrow> 'c client" where
  "print_contents [] s = s"
| "print_contents (content # contents) s =
     print_contents contents
       (if content_type content = ''text''
        then print_line (wf_chart_mark @ '' Meeting Summary: '' @ content_text content) s
        else s)"

definition summary_error_line :: "'c wf_lib \<Rightarrow> pyval \<Rightarrow> exn \<Rightarrow> string" where
  "summary_error_line lib title e =
     wf_err_mark @ '' Error creating meeting summary for '' @ [CHR 0x27]
     @ py_str (wf_repr lib) title @ [CHR 0x27] @ '': '' @ exn_str e"

text \<open>One turn of the loop \<open>for event in events\<close> of \<open>_create_meeting_summaries\<close>.\<close>

definition summary_step :: "'c wf_lib \<Rightarrow> pyval \<Rightarrow> 'c client \<Rightarrow> exn option \<times> 'c client" where
  "summary_step lib event s =
     (case event of
        PDict kvs \<Rightarrow>
          (let title = dict_get kvs ''title'' (PStr []);
               description = dict_get kvs ''description'' (PStr []);
               attendees = dict_get kvs ''attendees'' (PList []);
               start_time = dict_get kvs ''start_time'' (PStr [])
           in case looks_like_meeting description of
                Inl e \<Rightarrow> (Some e, s)
              | Inr False \<Rightarrow> (None, s)
              | Inr True \<Rightarrow>
                  (let meeting_date = meeting_date_of (today lib (session s)) start_time in
                   case description of
                     PStr d \<Rightarrow>
                       (let action_items = extract_action_items_simple char_text d in
                        case (if truthy attendees then py_join '', '' attendees else Inr []) of
                          Inl e \<Rightarrow> (None, print_line (summary_error_line lib title e) s)
                        | Inr attendee_text \<Rightarrow>
                            (let arguments =
                                   [(''meeting_title'', title),
                                    (''meeting_date'', meeting_date),
                                    (''attendees'', PStr attendee_text),
                                    (''summary'', description),
                                    (''action_items'',
                                     PStr (dumps lib (PList (map PStr action_items))))]
                             in case call_tool lib ''create_meeting_summary'' arguments
                                       (session s) of
                                  (outcome, c) \<Rightarrow>
                                    (let s' = s\<lparr>session := c,
                                                 tool_calls := tool_calls s
                                                   @ [(''create_meeting_summary'', arguments)]\<rparr>
                                     in case outcome of
                                          Inl e \<Rightarrow>
                                            (None, print_line (summary_error_line lib title e) s')
                                        | Inr contents \<Rightarrow> (None, print_contents contents s'))))
                   | _ \<Rightarrow> (Some (no_attribute description ''lower''), s)))
      | _ \<Rightarrow> (Some (no_attribute event ''get''), s))"

fun summaries_loop :: "'c wf_lib \<Rightarrow> pyval list \<Rightarrow> 'c client \<Rightarrow> exn option \<times> 'c client" where
  "summaries_loop lib [] s = (None, s)"
| "summaries_loop lib (event # events) s =
     (case summary_step lib event s of
        (Some e, s') \<Rightarrow> (Some e, s')
      | (None, s') \<Rightarrow> summaries_loop lib events s')"

definition create_meeting_summaries ::
  "'c wf_lib \<Rightarrow> pyval \<Rightarrow> 'c client \<Rightarrow> exn option \<times> 'c client" where
  "create_meeting_summaries lib events s0 =
     (let s = print_line ([newline] @ wf_chart_mark @ '' Creating meeting summaries...'') s0 in
      case py_iter events of
        Inl e \<Rightarrow> (Some e, s)
      | Inr evs \<Rightarrow> summaries_loop lib evs s)"

section \<open>Reference definitions for the properties\<close>

text \<open>
  A text without its trailing blanks, and without its leading and trailing blanks.
\<close>

fun drop_trailing :: "('a \<Rightarrow> bool) \<Rightarrow> 'a list \<Rightarrow> 'a list" where
  "drop_trailing blank [] = []"
| "drop_trailing blank (c # cs) =
     (case drop_trailing blank cs of
        [] \<Rightarrow> (if blank c then [] else [c])
      | r # rs \<Rightarrow> c # r # rs)"

definition trim :: "('a \<Rightarrow> bool) \<Rightarrow> 'a list \<Rightarrow> 'a list" where
  "trim blank s = drop_trailing blank (dropWhile blank s)"

text \<open>
  A text without its bullet markers: reading from the left, every marker character that a
  space follows is dropped together with that space, wherever in the text it stands.
\<close>

fun unmark :: "'a \<Rightarrow> 'a \<Rightarrow> 'a list \<Rightarrow> 'a list" where
  "unmark marker space (x # y # zs) =
     (if x = marker \<and> y = space then unmark marker space zs
      else x # unmark marker space (y # zs))"
| "unmark marker space zs = zs"

text \<open>
  The cleaned text of a line: trimmed, without its \<open>-\<close> markers, then without its \<open>*\<close>
  markers, and trimmed again.
\<close>

definition tidy :: "'c text_lib \<Rightarrow> 'c list \<Rightarrow> 'c list" where
  "tidy L line =
     trim (text_space L)
       (unmark (text_char L (CHR ''*'')) (text_char L (CHR '' ''))
          (unmark (text_char L (CHR ''-'')) (text_char L (CHR '' ''))
             (trim (text_space L) line)))"

text \<open>
  The lines that give an action item: not blank, with a keyword somewhere in the line, and
  with a cleaned text longer than ten characters.
\<close>

definition qualifies :: "'c text_lib \<Rightarrow> 'c list \<Rightarrow> bool" where
  "qualifies L line =
     (\<not> list_all (text_space L) line
      \<and> list_ex (\<lambda>keyword. sublist (lit L keyword) line) action_keywords
      \<and> 10 < length (tidy L line))"

text \<open>Six lines that each give an action item.\<close>

definition six_lines :: string where
  "six_lines =
     ''todo: call vendor one'' @ [newline] @ ''todo: call vendor two'' @ [newline]
     @ ''todo: call vendor three'' @ [newline] @ ''todo: call vendor four'' @ [newline]
     @ ''todo: call vendor five'' @ [newline] @ ''todo: call vendor six''"

text \<open>
  The date portion of a start time: the text before the first \<open>T\<close>, or the whole text
  when it has no \<open>T\<close>.
\<close>

definition date_part :: "string \<Rightarrow> string" where
  "date_part st = (if CHR ''T'' \<in> set st then takeWhile (\<lambda>c. c \<noteq> CHR ''T'') st else st)"

text \<open>The value is a string.\<close>

definition is_str :: "pyval \<Rightarrow> bool" where
  "is_str v = (case v of PStr s \<Rightarrow> True | _ \<Rightarrow> False)"

text \<open>
  The due dates on which \<open>_create_task\<close> raises nothing: an empty value or a string, or
  any value when a secret is missing, since the function then returns before it validates
  the date.
\<close>

definition due_accepted :: "config \<Rightarrow> pyval \<Rightarrow> bool" where
  "due_accepted cfg due =
     (unset (notion_api_key cfg) \<or> unset (notion_database_id cfg) \<or> \<not> truthy due \<or> is_str due)"

text \<open>
  The events on which the body of the bulk loop raises nothing: a dictionary whose due date
  is accepted and whose description is a string, unless extraction is off or the
  description is the default one.
\<close>

definition raises_nothing :: "config \<Rightarrow> pyval \<Rightarrow> pyval \<Rightarrow> bool" where
  "raises_nothing cfg flag event =
     (case event of
        PDict kvs \<Rightarrow>
          (let due = due_date_of (dict_get kvs ''start_time'' (PStr []));
               description = dict_get kvs ''description'' (PStr [])
           in due_accepted cfg due
              \<and> (\<not> truthy flag \<or> description = PStr ''No description'' \<or> is_str description))
      | _ \<Rightarrow> False)"

text \<open>The number of action items the bulk loop extracts from one event.\<close>

definition action_item_count :: "pyval \<Rightarrow> pyval \<Rightarrow> nat" where
  "action_item_count flag event =
     (case event of
        PDict kvs \<Rightarrow>
          (case dict_get kvs ''description'' (PStr []) of
             PStr d \<Rightarrow>
               if truthy flag \<and> d \<noteq> ''No description''
               then length (extract_action_items_from_text char_text d) else 0
           | _ \<Rightarrow> 0)
      | _ \<Rightarrow> 0)"

text \<open>The priority name the task service knows for a lower-cased filter text.\<close>

definition priority_name :: "string \<Rightarrow> string" where
  "priority_name lowered =
     (if lowered = ''high'' then ''High''
      else if lowered = ''medium'' then ''Medium''
      else ''Low'')"

text \<open>
  The request that creates a page with the five base properties and no due date, written
  out field by field: the address, the three headers, the parent database, the name, the
  status \<open>Not started\<close>, the priority, the source, the creation time, and the description
  as one paragraph block when there is one.
\<close>

definition page_request ::
  "string \<Rightarrow> string \<Rightarrow> pyval \<Rightarrow> pyval \<Rightarrow> pyval \<Rightarrow> pyval \<Rightarrow> string \<Rightarrow> http_request" where
  "page_request key db title description priority source now =
     \<lparr>url = ''https://api.notion.com/v1/pages'',
      headers = [(''Authorization'', ''Bearer '' @ key),
                 (''Content-Type'', ''application/json''),
                 (''Notion-Version'', ''2022-06-28'')],
      body =
        PDict
          ([(''parent'', PDict [(''database_id'', PStr db)]),
            (''properties'',
             PDict [(''Name'',
                     PDict [(''title'', PList [PDict [(''text'', PDict [(''content'', title)])]])]),
                    (''Status'', PDict [(''select'', PDict [(''name'', PStr ''Not started'')])]),
                    (''Priority'', PDict [(''select'', PDict [(''name'', priority)])]),
                    (''Source'', PDict [(''select'', PDict [(''name'', source)])]),
                    (''Created'', PDict [(''date'', PDict [(''start'', PStr now)])])])]
           @ (if truthy description
              then [(''children'',
                     PList [PDict [(''object'', PStr ''block''),
                                   (''type'', PStr ''paragraph''),
                                   (''paragraph'',
                                    PDict [(''rich_text'',
                                            PList [PDict [(''type'', PStr ''text''),
                                                          (''text'',
                                                           PDict [(''content'',
                                                                   description)])]])])]])]
              else []))\<rparr>"

text \<open>A dictionary without the entries of one key.\<close>

definition without :: "string \<Rightarrow> (string \<times> pyval) list \<Rightarrow> (string \<times> pyval) list" where
  "without key d = filter (\<lambda>kv. fst kv \<noteq> key) d"

section \<open>A test environment\<close>

text \<open>
  Concrete inputs for the instances below: two events, a remote service that refuses every
  request with status 401 and counts the requests, and a session whose tool calls succeed.
\<close>

definition demo_event :: pyval where
  "demo_event =
     PDict [(''title'', PStr ''Sync''),
            (''start_time'', PStr ''2024-03-01T10:00:00Z''),
            (''description'', PStr ''- TODO: call vendor''),
            (''location'', PStr ''No location specified''),
            (''attendees'', PList [])]"

definition quiet_event :: pyval where
  "quiet_event =
     PDict [(''title'', PStr ''Lunch''),
            (''start_time'', PStr ''2024-03-02''),
            (''description'', PStr ''No description''),
            (''location'', PStr ''Canteen''),
            (''attendees'', PList [])]"

definition demo_events_json :: string where
  \<open>demo_events_json =
     ''[{"title": "Sync", "start_time": "2024-03-01T10:00:00Z", ''
     @ ''"description": "- TODO: call vendor", "location": "No location specified", ''
     @ ''"attendees": []}, ''
     @ ''{"title": "Lunch", "start_time": "2024-03-02", "description": "No description", ''
     @ ''"location": "Canteen", "attendees": []}]''\<close>

definition demo_lib :: "nat lib" where
  "demo_lib =
     \<lparr>post = (\<lambda>req n. (Inr (Response 401 ''unauthorized''
                                (Inl (JSONDecodeError ''Expecting value''))), n + 1)),
      now_isoformat = (\<lambda>n. ''2024-03-01T09:00:00''),
      now_date = (\<lambda>n. ''2024-03-01''),
      json_loads = (\<lambda>s. if s = demo_events_json then Inr (PList [demo_event, quiet_event])
                          else if s = ''[]'' then Inr (PList [])
                          else Inl ''Expecting value''),
      strptime_ok = (\<lambda>d. d = ''2024-03-01'' \<or> d = ''2024-03-02''),
      repr_of = (\<lambda>v. ''...'')\<rparr>"

text \<open>The same environment with a remote service that accepts every request.\<close>

definition accepting_lib :: "nat lib" where
  "accepting_lib =
     demo_lib\<lparr>post := (\<lambda>req n. (Inr (Response 200 ''{}''
                                          (Inr (PDict [(''id'', PStr ''page-1'')]))), n + 1))\<rparr>"

definition demo_config :: config where
  "demo_config = \<lparr>notion_api_key = Some ''secret'', notion_database_id = Some ''tasks''\<rparr>"

definition no_config :: config where
  "no_config = \<lparr>notion_api_key = None, notion_database_id = None\<rparr>"

definition start_state :: "nat sys" where
  "start_state = \<lparr>remote = 0, sent = [], task_calls = []\<rparr>"

definition meeting_fields :: "(string \<times> pyval) list" where
  "meeting_fields =
     [(''title'', PStr ''Vendor review''),
      (''start_time'', PStr ''2024-03-01T10:00:00Z''),
      (''description'',
       PStr (''Weekly meeting to review the open vendor contracts'' @ [newline]
             @ ''- TODO: call the vendor about the renewal'')),
      (''location'', PStr ''Room 2''),
      (''attendees'', PList [PStr ''ann@example.org''])]"

definition demo_wf_lib :: "nat wf_lib" where
  "demo_wf_lib =
     \<lparr>call_tool = (\<lambda>name arguments n. (Inr [TextContent ''text'' ''done''], n + 1)),
      today = (\<lambda>n. ''2024-02-29''),
      dumps = (\<lambda>v. ''[]''),
      wf_repr = (\<lambda>v. ''...'')\<rparr>"

definition start_client :: "nat client" where
  "start_client = \<lparr>session = 0, printed = [], tool_calls = []\<rparr>"

text \<open>
  A raw calendar event with an attendee record that has no \<open>email\<close>, and a calendar
  service that returns it.
\<close>

definition raw_event :: pyval where
  "raw_event =
     PDict [(''summary'', PStr ''Sync''),
            (''start'', PDict [(''dateTime'', PStr ''2024-03-01T10:00:00Z'')]),
            (''attendees'',
             PList [PDict [(''displayName'', PStr ''Bob'')],
                    PDict [(''email'', PStr ''ann@example.org'')]])]"

definition demo_cal_lib :: "nat cal_lib" where
  "demo_cal_lib =
     \<lparr>authenticate = (\<lambda>n. (None, n)),
      events_list = (\<lambda>calendar_id time_min time_max n.
                       (Inr (PDict [(''items'', PList [raw_event])]), n + 1)),
      today_bounds = (\<lambda>n. (''2024-03-01T00:00:00Z'', ''2024-03-02T00:00:00Z'')),
      day_bounds = (\<lambda>d. if d = ''2024-03-01''
                         then Inr (''2024-03-01T00:00:00Z'', ''2024-03-02T00:00:00Z'')
                         else Inl ''time data does not match format''),
      json_dumps = (\<lambda>v. ''...'')\<rparr>"

definition start_cal :: "nat cal" where
  "start_cal = \<lparr>service = False, outside = 0\<rparr>"

section \<open>Properties of the string functions\<close>

lemma lower_char_idem: "lower_char (lower_char c) = lower_char c"
  unfolding lower_char_def Let_def by (auto simp: of_char_of)


lemma str_split_pieces: "l \<in> set (str_split sep s) \<Longrightarrow> set l \<subseteq> set s"
proof (induction s arbitrary: l)
  case Nil
  then show ?case by simp
next
  case (Cons c cs)
  show ?case
  proof (cases "c = sep")
    case True
    with Cons show ?thesis by auto
  next
    case False
    then show ?thesis
      using Cons by (cases "str_split sep cs") (auto, blast+)
  qed
qed

lemma drop_trailing_eq: "drop_trailing space s = rev (dropWhile space (rev s))"
proof (induction s)
  case Nil
  then show ?case by simp
next
  case (Cons c cs)
  show ?case
  proof (cases "\<forall>x \<in> set cs. space x")
    case True
    then have "dropWhile space (rev cs) = []" by simp
    with Cons True show ?thesis
      by (simp add: dropWhile_append)
  next
    case False
    then have "dropWhile space (rev cs) \<noteq> []" by auto
    with Cons False show ?thesis
      by (auto simp: dropWhile_append split: list.splits)
  qed
qed

lemma strip_by_trim: "strip_by space s = trim space s"
  by (simp add: strip_by_def trim_def drop_trailing_eq)

lemma remove_one_more: "remove_from (Suc 0) old (y # zs) = remove_from 0 old zs"
  by simp

lemma str_remove_unmark: "str_remove [marker, blank] s = unmark marker blank s"
  unfolding str_remove_def
  by (induction marker blank s rule: unmark.induct) (auto simp: starts_with_def)

lemma starts_with_prefix: "starts_with s p = prefix p s"
proof
  assume "starts_with s p"
  then have "s = p @ drop (length p) s"
    by (metis append_take_drop_id starts_with_def)
  then show "prefix p s"
    by (metis prefixI)
next
  assume "prefix p s"
  then show "starts_with s p"
    by (auto simp: prefix_def starts_with_def)
qed

lemma str_contains_sublist: "str_contains s sub = sublist sub s"
  by (induction s) (auto simp: sublist_Cons_right starts_with_prefix)

lemma strip_by_blank: "(strip_by space s = []) = list_all space s"
proof -
  have "(\<forall>x \<in> set (dropWhile space s). space x) = (dropWhile space s = [])"
  proof (cases "dropWhile space s")
    case Nil
    show ?thesis unfolding Nil by simp
  next
    case (Cons a as)
    have "\<not> space (hd (dropWhile space s))"
      by (rule hd_dropWhile) (simp add: Cons)
    then show ?thesis unfolding Cons by auto
  qed
  moreover have "(strip_by space s = []) = (\<forall>x \<in> set (dropWhile space s). space x)"
    by (simp add: strip_by_def)
  moreover have "(dropWhile space s = []) = (\<forall>x \<in> set s. space x)"
    by (rule dropWhile_eq_Nil_conv)
  ultimately show ?thesis
    unfolding list_all_iff by blast
qed

lemma cleaned_tidy:
  "strip_by (text_space L)
     (str_remove (lit L ''* '') (str_remove (lit L ''- '') (strip_by (text_space L) line)))
   = tidy L line"
  by (simp add: tidy_def lit_def str_remove_unmark strip_by_trim)

lemma unmark_chars: "set (unmark marker blank s) \<subseteq> set s"
  by (induction marker blank s rule: unmark.induct) auto

lemma trim_chars: "set (trim space s) \<subseteq> set s"
  unfolding trim_def drop_trailing_eq by (auto dest!: set_dropWhileD)

lemma tidy_chars: "set (tidy L l) \<subseteq> set l"
  unfolding tidy_def using trim_chars unmark_chars by (meson subset_trans)

lemma lowered_line_fixed:
  assumes "l \<in> set (str_split sep (str_lower t))"
  shows "str_lower (take n (tidy L l)) = take n (tidy L l)"
proof -
  have "set (take n (tidy L l)) \<subseteq> set (str_lower t)"
    using assms str_split_pieces tidy_chars set_take_subset
    by (meson subset_trans)
  then have "\<forall>c \<in> set (take n (tidy L l)). lower_char c = c"
    by (auto simp: str_lower_def lower_char_idem)
  then show ?thesis
    by (simp add: str_lower_def map_idI)
qed

section \<open>Action item extraction: the scan as a comprehension\<close>

lemma from_text_loop_eq:
  "from_text_loop L lines acc
     = acc @ map (\<lambda>l. take 100 (tidy L l)) (filter (qualifies L) lines)"
proof (induction lines arbitrary: acc)
  case Nil
  then show ?case by simp
next
  case (Cons line lines)
  have q: "qualifies L line
             = (strip_by (text_space L) line \<noteq> []
                \<and> list_ex (\<lambda>keyword. str_contains line (lit L keyword)) action_keywords
                \<and> tidy L line \<noteq> [] \<and> length (tidy L line) > 10)"
    by (auto simp: qualifies_def strip_by_blank str_contains_sublist)
  show ?case
    by (simp add: Cons Let_def cleaned_tidy q)
qed

lemma simple_loop_eq:
  "simple_loop L lines acc
     = acc @ map (\<lambda>l. take 80 (tidy L l)) (filter (qualifies L) lines)"
proof (induction lines arbitrary: acc)
  case Nil
  then show ?case by simp
next
  case (Cons line lines)
  have q: "qualifies L line
             = (strip_by (text_space L) line \<noteq> []
                \<and> list_ex (\<lambda>keyword. str_contains line (lit L keyword)) action_keywords
                \<and> tidy L line \<noteq> [] \<and> length (tidy L line) > 10)"
    by (auto simp: qualifies_def strip_by_blank str_contains_sublist)
  show ?case
    by (simp add: Cons Let_def cleaned_tidy q)
qed

lemma from_text_eq:
  "extract_action_items_from_text L t
     = take 5 (map (\<lambda>l. take 100 (tidy L l))
                 (filter (qualifies L) (str_split (text_char L newline) (text_lower L t))))"
  by (simp add: extract_action_items_from_text_def from_text_loop_eq)

lemma simple_eq:
  "extract_action_items_simple L t
     = take 3 (map (\<lambda>l. take 80 (tidy L l))
                 (filter (qualifies L) (str_split (text_char L newline) (text_lower L t))))"
  by (simp add: extract_action_items_simple_def simple_loop_eq)

lemma cut_items_sized:
  assumes "x \<in> set (take k (map (\<lambda>l. take n (tidy L l)) (filter (qualifies L) ls)))"
    and "10 < n"
  shows "10 < length x \<and> length x \<le> n"
proof -
  from assms(1) have "x \<in> set (map (\<lambda>l. take n (tidy L l)) (filter (qualifies L) ls))"
    by (rule in_set_takeD)
  then obtain l where "qualifies L l" and "x = take n (tidy L l)"
    by auto
  with assms(2) show ?thesis
    by (auto simp: qualifies_def)
qed

lemma cut_items_lowered:
  assumes "x \<in> set (take k (map (\<lambda>l. take n (tidy char_text l))
                                (filter (qualifies char_text)
                                   (str_split newline (str_lower chars)))))"
  shows "str_lower x = x"
proof -
  from assms have "x \<in> set (map (\<lambda>l. take n (tidy char_text l))
                              (filter (qualifies char_text)
                                 (str_split newline (str_lower chars))))"
    by (rule in_set_takeD)
  then obtain l where "l \<in> set (str_split newline (str_lower chars))"
    and "x = take n (tidy char_text l)"
    by auto
  then show ?thesis
    by (simp add: lowered_line_fixed)
qed

text \<open>
  Claim C1, as the code has it. Both extraction functions go through the lines of the
  lower-cased text, for every text and whatever the characters are. A line gives an item
  when it is not blank, a keyword occurs in it and its cleaned text is longer than ten
  characters; the item is the cleaned text, cut at 100 characters in the bulk path and at
  80 in the summary path, and the first five, respectively three, items are returned in
  line order. The cleaned text is the line without its leading and trailing blanks and
  without its \<open>-\<close> and \<open>*\<close> markers, wherever they stand. On the strings of the servers'
  data every item is in lower case, and the line \<open>- TODO: call vendor\<close> yields
  \<open>todo: call vendor\<close>.
\<close>

theorem extraction_returns_cleaned_lowercase_lines:
  "extract_action_items_from_text L text =
     take 5 (map (\<lambda>l. take 100 (tidy L l))
               (filter (qualifies L) (str_split (text_char L newline) (text_lower L text))))
   \<and> extract_action_items_simple L text =
     take 3 (map (\<lambda>l. take 80 (tidy L l))
               (filter (qualifies L) (str_split (text_char L newline) (text_lower L text))))
   \<and> list_all (\<lambda>item. 10 < length item \<and> length item \<le> 100)
        (extract_action_items_from_text L text)
   \<and> list_all (\<lambda>item. 10 < length item \<and> length item \<le> 80)
        (extract_action_items_simple L text)
   \<and> map str_lower (extract_action_items_from_text char_text chars)
       = extract_action_items_from_text char_text chars
   \<and> map str_lower (extract_action_items_simple char_text chars)
       = extract_action_items_simple char_text chars
   \<and> extract_action_items_from_text char_text ''- TODO: call vendor'' = [''todo: call vendor'']
   \<and> extract_action_items_simple char_text ''- TODO: call vendor'' = [''todo: call vendor'']"
proof -
  have c: "list_all (\<lambda>item. 10 < length item \<and> length item \<le> 100)
             (extract_action_items_from_text L text)"
    unfolding from_text_eq list_all_iff
  proof
    fix item
    assume "item \<in> set (take 5 (map (\<lambda>l. take 100 (tidy L l))
                                   (filter (qualifies L)
                                      (str_split (text_char L newline) (text_lower L text)))))"
    then show "10 < length item \<and> length item \<le> 100"
      by (rule cut_items_sized) simp
  qed
  have d: "list_all (\<lambda>item. 10 < length item \<and> length item \<le> 80)
             (extract_action_items_simple L text)"
    unfolding simple_eq list_all_iff
  proof
    fix item
    assume "item \<in> set (take 3 (map (\<lambda>l. take 80 (tidy L l))
                                   (filter (qualifies L)
                                      (str_split (text_char L newline) (text_lower L text)))))"
    then show "10 < length item \<and> length item \<le> 80"
      by (rule cut_items_sized) simp
  qed
  have lines: "str_split (text_char char_text newline) (text_lower char_text chars)
                 = str_split newline (str_lower chars)"
    by (simp add: char_text_def)
  have e: "map str_lower (extract_action_items_from_text char_text chars)
             = extract_action_items_from_text char_text chars"
    unfolding from_text_eq lines by (rule map_idI) (rule cut_items_lowered)
  have f: "map str_lower (extract_action_items_simple char_text chars)
             = extract_action_items_simple char_text chars"
    unfolding simple_eq lines by (rule map_idI) (rule cut_items_lowered)
  have g: "extract_action_items_from_text char_text ''- TODO: call vendor''
             = [''todo: call vendor'']"
    by code_simp
  have h: "extract_action_items_simple char_text ''- TODO: call vendor''
             = [''todo: call vendor'']"
    by code_simp
  from from_text_eq [of L "text"] simple_eq [of L "text"] c d e f g h show ?thesis by blast
qed

text \<open>
  Claim C1, as stated, fails in each of its parts. The line \<open>- TODO: call vendor\<close> does not
  come back with its letter case; a marker inside a line is removed like a leading one; a
  line with a keyword and a short cleaned text gives no item; a long line is cut; and of
  six lines with a keyword the bulk path returns five and the summary path three.
\<close>

theorem extraction_loses_letter_case:
  "extract_action_items_from_text char_text ''- TODO: call vendor'' = [''todo: call vendor'']
   \<and> ''TODO: call vendor'' \<notin> set (extract_action_items_from_text char_text ''- TODO: call vendor'')
   \<and> extract_action_items_simple char_text ''- TODO: call vendor'' = [''todo: call vendor'']
   \<and> ''TODO: call vendor'' \<notin> set (extract_action_items_simple char_text ''- TODO: call vendor'')
   \<and> extract_action_items_from_text char_text ''todo: call vendor - today''
       = [''todo: call vendor today'']
   \<and> extract_action_items_simple char_text ''todo: call vendor - today''
       = [''todo: call vendor today'']
   \<and> extract_action_items_from_text char_text ''todo: x'' = []
   \<and> extract_action_items_simple char_text ''todo: x'' = []
   \<and> extract_action_items_from_text char_text (''todo: '' @ replicate 120 (CHR ''x''))
       = [''todo: '' @ replicate 94 (CHR ''x'')]
   \<and> extract_action_items_simple char_text (''todo: '' @ replicate 120 (CHR ''x''))
       = [''todo: '' @ replicate 74 (CHR ''x'')]
   \<and> extract_action_items_from_text char_text six_lines
       = [''todo: call vendor one'', ''todo: call vendor two'', ''todo: call vendor three'',
          ''todo: call vendor four'', ''todo: call vendor five'']
   \<and> extract_action_items_simple char_text six_lines
       = [''todo: call vendor one'', ''todo: call vendor two'', ''todo: call vendor three'']"
  by code_simp

text \<open>
  Claim C5. Whatever the text and its characters, the bulk path returns at most five
  action items and the meeting-summary path at most three.
\<close>

theorem action_item_count_capped:
  "length (extract_action_items_from_text L text) \<le> 5
   \<and> length (extract_action_items_simple L text) \<le> 3"
  by (simp add: extract_action_items_from_text_def extract_action_items_simple_def)

section \<open>Due dates\<close>

lemma str_contains_single: "str_contains s [c] = (c \<in> set s)"
  by (induction s) (auto simp: starts_with_def)

lemma str_split_first: "\<exists>rest. str_split sep s = takeWhile (\<lambda>c. c \<noteq> sep) s # rest"
  by (induction s) (auto split: list.splits)

lemma due_date_of_string: "st \<noteq> [] \<Longrightarrow> due_date_of (PStr st) = PStr (date_part st)"
  using str_split_first [of "CHR ''T''" st]
  by (auto simp: due_date_of_def date_part_def str_contains_single split: list.splits)

lemma meeting_date_of_string: "st \<noteq> [] \<Longrightarrow> meeting_date_of td (PStr st) = PStr (date_part st)"
  using str_split_first [of "CHR ''T''" st]
  by (auto simp: meeting_date_of_def date_part_def str_contains_single split: list.splits)

section \<open>The tasks a run hands to \<open>_create_task\<close>\<close>

lemma send_task_calls: "send lib req s = (outcome, s') \<Longrightarrow> task_calls s' = task_calls s"
  by (auto simp: send_def split: prod.splits)

lemma create_task_calls:
  "task_calls (snd (create_task lib cfg args s)) = task_calls s @ [args]"
  by (auto simp: create_task_def Let_def split: sum.splits prod.splits dest: send_task_calls)

lemma create_task_calls':
  "create_task lib cfg args s = (r, s') \<Longrightarrow> task_calls s' = task_calls s @ [args]"
  using create_task_calls [of lib cfg args s] by simp

lemma action_items_loop_calls:
  "\<exists>n. task_calls (snd (action_items_loop lib cfg title due items created s))
        = task_calls s @ map (\<lambda>item. action_task_args lib (PStr item) title due) (take n items)"
proof (induction items arbitrary: created s)
  case Nil
  then show ?case by simp
next
  case (Cons item items)
  obtain r s' where step: "create_task lib cfg (action_task_args lib (PStr item) title due) s = (r, s')"
    by (cases "create_task lib cfg (action_task_args lib (PStr item) title due) s")
  have calls: "task_calls s' = task_calls s @ [action_task_args lib (PStr item) title due]"
    using create_task_calls' [OF step] .
  show ?case
  proof (cases r)
    case (Inl e)
    with step calls show ?thesis
      by (intro exI [of _ 1]) simp
  next
    case (Inr res)
    from Cons.IH [of "created @ [''Action: '' @ item]" s'] obtain n where
      "task_calls (snd (action_items_loop lib cfg title due items (created @ [''Action: '' @ item]) s'))
        = task_calls s' @ map (\<lambda>item. action_task_args lib (PStr item) title due) (take n items)"
      by blast
    with step calls Inr show ?thesis
      by (intro exI [of _ "Suc n"]) simp
  qed
qed


lemma event_step_calls:
  "\<exists>items. task_calls (snd (event_step lib cfg flag (PDict kvs) created s))
        = task_calls s
          @ main_task_args lib (dict_get kvs ''title'' (PStr ''Untitled Event''))
              (dict_get kvs ''description'' (PStr []))
              (dict_get kvs ''location'' (PStr []))
              (due_date_of (dict_get kvs ''start_time'' (PStr [])))
          # map (\<lambda>item. action_task_args lib (PStr item)
                          (dict_get kvs ''title'' (PStr ''Untitled Event''))
                          (due_date_of (dict_get kvs ''start_time'' (PStr []))))
              items
      \<and> (dict_get kvs ''description'' (PStr []) = PStr ''No description'' \<longrightarrow> items = [])"
proof -
  let ?title = "dict_get kvs ''title'' (PStr ''Untitled Event'')"
  let ?description = "dict_get kvs ''description'' (PStr [])"
  let ?location = "dict_get kvs ''location'' (PStr [])"
  let ?due = "due_date_of (dict_get kvs ''start_time'' (PStr []))"
  let ?main = "main_task_args lib ?title ?description ?location ?due"
  obtain r s' where step: "create_task lib cfg ?main s = (r, s')"
    by (cases "create_task lib cfg ?main s")
  have calls: "task_calls s' = task_calls s @ [?main]"
    using create_task_calls' [OF step] .
  show ?thesis
  proof (cases r)
    case (Inl e)
    with step calls show ?thesis
      by (intro exI [of _ "[]"]) (simp add: event_step_def Let_def)
  next
    case (Inr res)
    show ?thesis
    proof (cases "truthy flag \<and> ?description \<noteq> PStr ''No description''")
      case False
      with step calls Inr show ?thesis
        by (intro exI [of _ "[]"]) (auto simp: event_step_def Let_def)
    next
      case True
      show ?thesis
      proof (cases ?description)
        case (PStr d)
        let ?created = "created @ [''Event: '' @ py_str (repr_of lib) ?title]"
        obtain n where
          "task_calls (snd (action_items_loop lib cfg ?title ?due
                              (extract_action_items_from_text char_text d) ?created s'))
           = task_calls s' @ map (\<lambda>item. action_task_args lib (PStr item) ?title ?due)
                               (take n (extract_action_items_from_text char_text d))"
          using action_items_loop_calls by blast
        with step calls Inr True PStr show ?thesis
          by (intro exI [of _ "take n (extract_action_items_from_text char_text d)"])
             (simp add: event_step_def Let_def)
      qed (use step calls Inr True in
            \<open>(intro exI [of _ "[]"], simp add: event_step_def Let_def)+\<close>)
    qed
  qed
qed

lemma print_contents_tool_calls: "tool_calls (print_contents contents s) = tool_calls s"
  by (induction contents arbitrary: s) (auto simp: print_line_def)

lemma summary_step_calls:
  "\<exists>calls. tool_calls (snd (summary_step lib (PDict kvs) s)) = tool_calls s @ calls
     \<and> list_all (\<lambda>call. map_of (snd call) ''meeting_date''
                          = Some (meeting_date_of (today lib (session s))
                                    (dict_get kvs ''start_time'' (PStr [])))) calls"
  by (auto simp: summary_step_def Let_def print_line_def print_contents_tool_calls
           split: sum.splits bool.splits pyval.splits prod.splits)


section \<open>The bulk path without exceptions\<close>

lemma create_task_returns:
  assumes "map_of args ''title'' = Some t"
    and "due_accepted cfg (dict_get args ''due_date'' (PStr []))"
  shows "\<exists>r s'. create_task lib cfg args s = (Inr r, s')"
  using assms
  by (auto simp: create_task_def Let_def dict_item_def due_date_property_def due_accepted_def
        is_str_def split: sum.splits prod.splits pyval.splits)

lemma action_items_loop_returns:
  assumes "due_accepted cfg due"
  shows "\<exists>s'. action_items_loop lib cfg title due items created s
               = (Inr (created @ map (\<lambda>item. ''Action: '' @ item) items), s')"
proof (induction items arbitrary: created s)
  case Nil
  then show ?case by simp
next
  case (Cons item items)
  obtain r s1 where step:
    "create_task lib cfg (action_task_args lib (PStr item) title due) s = (Inr r, s1)"
    using create_task_returns [of "action_task_args lib (PStr item) title due" _ cfg lib s] assms
    by (auto simp: action_task_args_def dict_get_def)
  from Cons.IH [of "created @ [''Action: '' @ item]" s1] step show ?case
    by auto
qed

lemma event_step_returns:
  assumes "raises_nothing cfg flag event"
  shows "\<exists>created' s'. event_step lib cfg flag event created s = (Inr created', s')
           \<and> length created' = length created + 1 + action_item_count flag event"
proof -
  from assms obtain kvs where ev: "event = PDict kvs"
    by (cases event) (auto simp: raises_nothing_def)
  let ?title = "dict_get kvs ''title'' (PStr ''Untitled Event'')"
  let ?description = "dict_get kvs ''description'' (PStr [])"
  let ?location = "dict_get kvs ''location'' (PStr [])"
  let ?due = "due_date_of (dict_get kvs ''start_time'' (PStr []))"
  let ?main = "main_task_args lib ?title ?description ?location ?due"
  from assms ev have due: "due_accepted cfg ?due"
    by (simp add: raises_nothing_def Let_def)
  from assms ev have descr:
    "\<not> truthy flag \<or> ?description = PStr ''No description'' \<or> is_str ?description"
    by (simp add: raises_nothing_def Let_def)
  obtain r s1 where step: "create_task lib cfg ?main s = (Inr r, s1)"
    using create_task_returns [of ?main _ cfg lib s] due
    by (auto simp: main_task_args_def dict_get_def)
  show ?thesis
  proof (cases "truthy flag \<and> ?description \<noteq> PStr ''No description''")
    case False
    with step ev show ?thesis
      by (auto simp: event_step_def Let_def action_item_count_def split: pyval.splits)
  next
    case True
    with descr obtain d where d: "?description = PStr d"
      by (cases ?description) (auto simp: is_str_def)
    let ?created = "created @ [''Event: '' @ py_str (repr_of lib) ?title]"
    obtain s2 where
      "action_items_loop lib cfg ?title ?due (extract_action_items_from_text char_text d) ?created s1
         = (Inr (?created @ map (\<lambda>item. ''Action: '' @ item)
                       (extract_action_items_from_text char_text d)), s2)"
      using action_items_loop_returns [OF due] by blast
    with step ev True d show ?thesis
      by (simp add: event_step_def Let_def action_item_count_def)
  qed
qed

lemma events_loop_returns:
  assumes "list_all (raises_nothing cfg flag) events"
  shows "\<exists>created' s'. events_loop lib cfg flag events created s = (Inr created', s')
           \<and> length created' = length created + length events
                                 + sum_list (map (action_item_count flag) events)"
  using assms
proof (induction events arbitrary: created s)
  case Nil
  then show ?case by simp
next
  case (Cons event events)
  then obtain c1 s1 where step: "event_step lib cfg flag event created s = (Inr c1, s1)"
    and len: "length c1 = length created + 1 + action_item_count flag event"
    using event_step_returns [of cfg flag event lib created s] by auto
  from Cons.prems have "list_all (raises_nothing cfg flag) events"
    by simp
  from Cons.IH [OF this, of c1 s1]
  obtain c2 s2 where "events_loop lib cfg flag events c1 s1 = (Inr c2, s2)"
    and "length c2 = length c1 + length events + sum_list (map (action_item_count flag) events)"
    by blast
  with step len show ?case by simp
qed


section \<open>Properties of the bulk path\<close>

text \<open>
  Claim C6. For an event whose description is \<open>No description\<close>, one turn of the bulk loop
  calls \<open>_create_task\<close> exactly once, whatever the extraction flag, the configuration and
  the remote service: with the main event record, of priority Medium and source Calendar.
  No action item task is created.
\<close>

theorem no_description_emits_one_task:
  assumes "map_of kvs ''description'' = Some (PStr ''No description'')"
  shows "\<exists>args. task_calls (snd (event_step lib cfg flag (PDict kvs) created s))
                  = task_calls s @ [args]
              \<and> args = main_task_args lib (dict_get kvs ''title'' (PStr ''Untitled Event''))
                         (PStr ''No description'') (dict_get kvs ''location'' (PStr []))
                         (due_date_of (dict_get kvs ''start_time'' (PStr [])))
              \<and> map_of args ''priority'' = Some (PStr ''Medium'')
              \<and> map_of args ''source'' = Some (PStr ''Calendar'')"
proof -
  from assms have d: "dict_get kvs ''description'' (PStr []) = PStr ''No description''"
    by (simp add: dict_get_def)
  from event_step_calls [of lib cfg flag kvs created s] d show ?thesis
    by (auto simp: main_task_args_def)
qed

theorem no_description_emits_one_task_witness:
  "map_of [(''title'', PStr ''Lunch''), (''description'', PStr ''No description'')] ''description''
     = Some (PStr ''No description'')
   \<and> length (task_calls (snd (event_step demo_lib demo_config (PBool True)
        (PDict [(''title'', PStr ''Lunch''), (''description'', PStr ''No description'')])
        [] start_state))) = 1"
  using no_description_emits_one_task
    [of "[(''title'', PStr ''Lunch''), (''description'', PStr ''No description'')]"
        demo_lib demo_config "PBool True" "[]" start_state]
  by (auto simp: start_state_def)


text \<open>
  Claim C9. For an event with a non-empty start time, every task the bulk loop derives from
  it has the date portion of the start time as its due date, and so has every meeting
  summary the workflow requests for it: the text before the first \<open>T\<close>, or the start time
  unchanged when it has no \<open>T\<close>. The start time \<open>2024-03-01T10:00:00Z\<close> gives \<open>2024-03-01\<close>.
\<close>

theorem due_date_is_date_part:
  assumes "st \<noteq> []" and "map_of kvs ''start_time'' = Some (PStr st)"
  shows "due_date_of (PStr st) = PStr (date_part st)
       \<and> (\<exists>calls. task_calls (snd (event_step lib cfg flag (PDict kvs) created s))
                      = task_calls s @ calls
                  \<and> calls \<noteq> []
                  \<and> list_all (\<lambda>args. map_of args ''due_date'' = Some (PStr (date_part st))) calls)
       \<and> meeting_date_of today_text (PStr st) = PStr (date_part st)
       \<and> (\<exists>calls. tool_calls (snd (summary_step wlib (PDict kvs) c)) = tool_calls c @ calls
                  \<and> list_all (\<lambda>call. map_of (snd call) ''meeting_date''
                                        = Some (PStr (date_part st))) calls)
       \<and> date_part ''2024-03-01T10:00:00Z'' = ''2024-03-01''"
proof -
  from assms have st: "dict_get kvs ''start_time'' (PStr []) = PStr st"
    by (simp add: dict_get_def)
  have a: "due_date_of (PStr st) = PStr (date_part st)"
    using assms(1) by (rule due_date_of_string)
  have b: "meeting_date_of t (PStr st) = PStr (date_part st)" for t
    using assms(1) by (rule meeting_date_of_string)
  from event_step_calls [of lib cfg flag kvs created s] obtain items where
    "task_calls (snd (event_step lib cfg flag (PDict kvs) created s))
       = task_calls s
         @ main_task_args lib (dict_get kvs ''title'' (PStr ''Untitled Event''))
             (dict_get kvs ''description'' (PStr [])) (dict_get kvs ''location'' (PStr []))
             (PStr (date_part st))
         # map (\<lambda>item. action_task_args lib (PStr item)
                         (dict_get kvs ''title'' (PStr ''Untitled Event'')) (PStr (date_part st)))
             items"
    unfolding st a by blast
  then have c: "\<exists>calls. task_calls (snd (event_step lib cfg flag (PDict kvs) created s))
                      = task_calls s @ calls
                  \<and> calls \<noteq> []
                  \<and> list_all (\<lambda>args. map_of args ''due_date'' = Some (PStr (date_part st))) calls"
    by (intro exI [of _ "main_task_args lib (dict_get kvs ''title'' (PStr ''Untitled Event''))
             (dict_get kvs ''description'' (PStr [])) (dict_get kvs ''location'' (PStr []))
             (PStr (date_part st))
         # map (\<lambda>item. action_task_args lib (PStr item)
                         (dict_get kvs ''title'' (PStr ''Untitled Event'')) (PStr (date_part st)))
             items"])
       (simp add: main_task_args_def action_task_args_def list_all_iff)
  have d: "\<exists>calls. tool_calls (snd (summary_step wlib (PDict kvs) c)) = tool_calls c @ calls
                  \<and> list_all (\<lambda>call. map_of (snd call) ''meeting_date''
                                        = Some (PStr (date_part st))) calls"
    using summary_step_calls [of wlib kvs c] unfolding st b .
  have e: "date_part ''2024-03-01T10:00:00Z'' = ''2024-03-01''"
    by (simp add: date_part_def)
  from a b c d e show ?thesis by blast
qed

theorem due_date_is_date_part_witness:
  "''2024-03-01T10:00:00Z'' \<noteq> []
   \<and> map_of meeting_fields ''start_time'' = Some (PStr ''2024-03-01T10:00:00Z'')
   \<and> due_date_of (PStr ''2024-03-01T10:00:00Z'') = PStr ''2024-03-01''
   \<and> meeting_date_of ''2024-02-29'' (PStr ''2024-03-01T10:00:00Z'') = PStr ''2024-03-01''
   \<and> map (\<lambda>args. map_of args ''due_date'')
         (task_calls (snd (event_step demo_lib demo_config (PBool True) (PDict meeting_fields)
                             [] start_state)))
       = [Some (PStr ''2024-03-01''), Some (PStr ''2024-03-01'')]
   \<and> map (\<lambda>call. map_of (snd call) ''meeting_date'')
         (tool_calls (snd (summary_step demo_wf_lib (PDict meeting_fields) start_client)))
       = [Some (PStr ''2024-03-01'')]"
proof -
  have a: "''2024-03-01T10:00:00Z'' \<noteq> []"
    by simp
  have b: "map_of meeting_fields ''start_time'' = Some (PStr ''2024-03-01T10:00:00Z'')"
    by (simp add: meeting_fields_def)
  have c: "date_part ''2024-03-01T10:00:00Z'' = ''2024-03-01''"
    by (simp add: date_part_def)
  have d: "map (\<lambda>args. map_of args ''due_date'')
             (task_calls (snd (event_step demo_lib demo_config (PBool True) (PDict meeting_fields)
                                 [] start_state)))
           = [Some (PStr ''2024-03-01''), Some (PStr ''2024-03-01'')]"
    by code_simp
  have e: "map (\<lambda>call. map_of (snd call) ''meeting_date'')
             (tool_calls (snd (summary_step demo_wf_lib (PDict meeting_fields) start_client)))
           = [Some (PStr ''2024-03-01'')]"
    by code_simp
  from due_date_is_date_part [OF a b, of demo_lib demo_config "PBool True" "[]" start_state
                                 "''2024-02-29''" demo_wf_lib start_client]
       a b c d e
  show ?thesis by simp
qed

text \<open>
  Claim C10. When the events decode to a sequence and no turn of the loop raises, the bulk
  function returns the success summary, and the count it reports is the number of events
  plus the number of action items extracted from them. This holds for every configuration
  and every behaviour of the remote service, so a creation that failed is counted like one
  that succeeded.
\<close>

theorem created_count_ignores_failures:
  assumes "map_of arguments ''events'' = Some events_json"
    and "and_then (py_json_loads lib events_json) py_iter = Inr events"
    and "flag = dict_get arguments ''extract_action_items'' (PBool True)"
    and "list_all (raises_nothing cfg flag) events"
  shows "\<exists>created_tasks.
           fst (create_tasks_from_calendar_events lib cfg arguments s)
             = Inr (text_message (created_summary created_tasks))
         \<and> created_summary created_tasks
             = ok_mark @ '' Created '' @ str_of_nat (length created_tasks)
               @ '' tasks from calendar events:'' @ [newline]
               @ str_join [newline] (map (\<lambda>task. bullet_mark @ '' '' @ task) created_tasks)
         \<and> length created_tasks
             = length events + sum_list (map (action_item_count flag) events)"
proof -
  from events_loop_returns [OF assms(4), of lib "[]" s] obtain created s' where
    loop: "events_loop lib cfg flag events [] s = (Inr created, s')"
    and len: "length created = length events + sum_list (map (action_item_count flag) events)"
    by auto
  have "fst (create_tasks_from_calendar_events lib cfg arguments s)
          = Inr (text_message (created_summary created))"
    using assms(1,2) loop unfolding assms(3)
    by (simp add: create_tasks_from_calendar_events_def dict_item_def Let_def)
  with len show ?thesis
    by (intro exI [of _ created]) (simp add: created_summary_def)
qed

theorem created_count_ignores_failures_witness:
  "map_of [(''events'', PStr demo_events_json)] ''events'' = Some (PStr demo_events_json)
   \<and> and_then (py_json_loads demo_lib (PStr demo_events_json)) py_iter
       = Inr [demo_event, quiet_event]
   \<and> list_all (raises_nothing no_config (PBool True)) [demo_event, quiet_event]
   \<and> (\<exists>created_tasks.
         fst (create_tasks_from_calendar_events demo_lib no_config
                [(''events'', PStr demo_events_json)] start_state)
           = Inr (text_message (created_summary created_tasks))
         \<and> length created_tasks = 3)"
proof -
  have a: "map_of [(''events'', PStr demo_events_json)] ''events'' = Some (PStr demo_events_json)"
    by simp
  have b: "and_then (py_json_loads demo_lib (PStr demo_events_json)) py_iter
             = Inr [demo_event, quiet_event]"
    by (simp add: and_then_def py_json_loads_def demo_lib_def)
  have c: "PBool True = dict_get [(''events'', PStr demo_events_json)] ''extract_action_items''
             (PBool True)"
    by (simp add: dict_get_def)
  have d: "list_all (raises_nothing no_config (PBool True)) [demo_event, quiet_event]"
    by code_simp
  have e: "action_item_count (PBool True) demo_event = 1"
    by code_simp
  have f: "action_item_count (PBool True) quiet_event = 0"
    by code_simp
  from created_count_ignores_failures [OF a b c d, of start_state] e f a b d
  show ?thesis by auto
qed

section \<open>Properties of \<open>_create_task\<close>\<close>

lemma send_sent: "send lib req s = (outcome, s') \<Longrightarrow> sent s' = sent s @ [req]"
  by (auto simp: send_def split: prod.splits)

lemma send_post:
  "send lib req s = (outcome, s') \<Longrightarrow> post lib req (remote s) = (outcome, remote s')"
  by (auto simp: send_def split: prod.splits)

lemma map_of_without: "map_of (without key d) k = (if k = key then None else map_of d k)"
  unfolding without_def by (induction d) auto

lemma dict_get_without:
  "k \<noteq> key \<Longrightarrow> dict_get (without key d) k dflt = dict_get d k dflt"
  by (simp add: dict_get_def map_of_without)

lemma send_ignores_traces:
  "fst (send lib req (s\<lparr>task_calls := tc\<rparr>)) = fst (send lib req s)
   \<and> remote (snd (send lib req (s\<lparr>task_calls := tc\<rparr>))) = remote (snd (send lib req s))
   \<and> sent (snd (send lib req (s\<lparr>task_calls := tc\<rparr>))) = sent (snd (send lib req s))"
  by (simp add: send_def split: prod.splits)

text \<open>
  Claim C7. When both secrets are set and \<open>due_date\<close> is a non-empty string that \<open>strptime\<close>
  rejects, \<open>_create_task\<close> raises nothing: it hands exactly one request to the remote
  service and answers with the reply to it. The request is the page request of the title,
  description, priority and source given (or their defaults), with no \<open>Due Date\<close> among its
  properties. Reply, request and remote state are those of the same call without a
  \<open>due_date\<close>.
\<close>

theorem invalid_due_date_is_skipped:
  assumes "notion_api_key cfg = Some key" and "key \<noteq> []"
    and "notion_database_id cfg = Some db" and "db \<noteq> []"
    and "map_of arguments ''title'' = Some title"
    and "map_of arguments ''due_date'' = Some (PStr d)" and "d \<noteq> []"
    and "\<not> strptime_ok lib d"
  shows "\<exists>outcome s'.
           create_task lib cfg arguments s
             = (Inr [TextContent ''text'' (create_task_reply lib title outcome)], s')
         \<and> post lib (page_request key db title
                        (dict_get arguments ''description'' (PStr []))
                        (dict_get arguments ''priority'' (PStr ''Medium''))
                        (dict_get arguments ''source'' (PStr ''Calendar''))
                        (now_isoformat lib (remote s)))
               (remote s)
             = (outcome, remote s')
         \<and> sent s' = sent s
             @ [page_request key db title
                  (dict_get arguments ''description'' (PStr []))
                  (dict_get arguments ''priority'' (PStr ''Medium''))
                  (dict_get arguments ''source'' (PStr ''Calendar''))
                  (now_isoformat lib (remote s))]
         \<and> fst (create_task lib cfg arguments s)
             = fst (create_task lib cfg (without ''due_date'' arguments) s)
         \<and> sent s' = sent (snd (create_task lib cfg (without ''due_date'' arguments) s))
         \<and> remote s' = remote (snd (create_task lib cfg (without ''due_date'' arguments) s))"
proof -
  let ?req = "page_request key db title
                (dict_get arguments ''description'' (PStr []))
                (dict_get arguments ''priority'' (PStr ''Medium''))
                (dict_get arguments ''source'' (PStr ''Calendar''))
                (now_isoformat lib (remote s))"
  let ?s = "s\<lparr>task_calls := task_calls s @ [arguments]\<rparr>"
  let ?t = "s\<lparr>task_calls := task_calls s @ [without ''due_date'' arguments]\<rparr>"
  from assms(1-4) have set: "\<not> unset (notion_api_key cfg)" "\<not> unset (notion_database_id cfg)"
    by (simp_all add: unset_def)
  from assms(6-8) have due: "due_date_property lib (dict_get arguments ''due_date'' (PStr [])) = Inr []"
    by (simp add: due_date_property_def dict_get_def)
  have due': "due_date_property lib (dict_get (without ''due_date'' arguments) ''due_date'' (PStr []))
                = Inr []"
    by (simp add: due_date_property_def dict_get_def map_of_without)
  obtain outcome s' where snd: "send lib ?req ?s = (outcome, s')"
    by (cases "send lib ?req ?s")
  have run: "create_task lib cfg arguments s
               = (Inr [TextContent ''text'' (create_task_reply lib title outcome)], s')"
    using set assms(1,3,5) due snd
    by (simp add: create_task_def Let_def dict_item_def page_request_def base_properties_def
          children_of_def notion_url_def get_notion_headers_def opt_str_def opt_val_def
          text_message_def)
  have run': "create_task lib cfg (without ''due_date'' arguments) s
               = (Inr [TextContent ''text'' (create_task_reply lib title (fst (send lib ?req ?t)))],
                  snd (send lib ?req ?t))"
    using set assms(1,3,5) due'
    by (simp add: create_task_def Let_def dict_item_def map_of_without dict_get_without
          page_request_def base_properties_def children_of_def notion_url_def
          get_notion_headers_def opt_str_def opt_val_def text_message_def
          split: prod.splits)
  have same: "fst (send lib ?req ?t) = outcome" "sent (snd (send lib ?req ?t)) = sent s'"
    "remote (snd (send lib ?req ?t)) = remote s'"
    using send_ignores_traces [where lib = lib and req = ?req and s = s
                                 and tc = "task_calls s @ [arguments]"]
          send_ignores_traces [where lib = lib and req = ?req and s = s
                                 and tc = "task_calls s @ [without ''due_date'' arguments]"]
          snd
    by simp_all
  have sent: "sent s' = sent s @ [?req]"
    using send_sent [OF snd] by simp
  have posted: "post lib ?req (remote s) = (outcome, remote s')"
    using send_post [OF snd] by simp
  show ?thesis
    using run run' same sent posted by (intro exI [of _ outcome] exI [of _ s']) simp
qed

theorem invalid_due_date_is_skipped_witness:
  "notion_api_key demo_config = Some ''secret'' \<and> ''secret'' \<noteq> []
   \<and> notion_database_id demo_config = Some ''tasks'' \<and> ''tasks'' \<noteq> []
   \<and> map_of [(''title'', PStr ''Pay''), (''description'', PStr ''Invoice 7''),
              (''due_date'', PStr ''tomorrow''), (''priority'', PStr ''High'')] ''title''
       = Some (PStr ''Pay'')
   \<and> map_of [(''title'', PStr ''Pay''), (''description'', PStr ''Invoice 7''),
              (''due_date'', PStr ''tomorrow''), (''priority'', PStr ''High'')] ''due_date''
       = Some (PStr ''tomorrow'')
   \<and> ''tomorrow'' \<noteq> [] \<and> \<not> strptime_ok accepting_lib ''tomorrow''
   \<and> create_task accepting_lib demo_config
         [(''title'', PStr ''Pay''), (''description'', PStr ''Invoice 7''),
          (''due_date'', PStr ''tomorrow''), (''priority'', PStr ''High'')] start_state
       = (Inr [TextContent ''text''
                 (ok_mark @ '' Task created successfully: '' @ [CHR 0x27] @ ''Pay''
                  @ [CHR 0x27, newline] @ ''Page ID: page-1'')],
          \<lparr>remote = 1,
             sent =
               [\<lparr>url = ''https://api.notion.com/v1/pages'',
                  headers = [(''Authorization'', ''Bearer secret''),
                             (''Content-Type'', ''application/json''),
                             (''Notion-Version'', ''2022-06-28'')],
                  body =
                    PDict
                      [(''parent'', PDict [(''database_id'', PStr ''tasks'')]),
                       (''properties'',
                        PDict
                          [(''Name'',
                            PDict [(''title'',
                                    PList [PDict [(''text'',
                                                   PDict [(''content'', PStr ''Pay'')])]])]),
                           (''Status'',
                            PDict [(''select'', PDict [(''name'', PStr ''Not started'')])]),
                           (''Priority'', PDict [(''select'', PDict [(''name'', PStr ''High'')])]),
                           (''Source'',
                            PDict [(''select'', PDict [(''name'', PStr ''Calendar'')])]),
                           (''Created'',
                            PDict [(''date'',
                                    PDict [(''start'', PStr ''2024-03-01T09:00:00'')])])]),
                       (''children'',
                        PList
                          [PDict
                             [(''object'', PStr ''block''),
                              (''type'', PStr ''paragraph''),
                              (''paragraph'',
                               PDict
                                 [(''rich_text'',
                                   PList
                                     [PDict
                                        [(''type'', PStr ''text''),
                                         (''text'',
                                          PDict [(''content'', PStr ''Invoice 7'')])]])])]])]\<rparr>],
             task_calls =
               [[(''title'', PStr ''Pay''), (''description'', PStr ''Invoice 7''),
                 (''due_date'', PStr ''tomorrow''), (''priority'', PStr ''High'')]]\<rparr>)"
proof -
  let ?args = "[(''title'', PStr ''Pay''), (''description'', PStr ''Invoice 7''),
                (''due_date'', PStr ''tomorrow''), (''priority'', PStr ''High'')]"
  have a: "notion_api_key demo_config = Some ''secret''" by (simp add: demo_config_def)
  have b: "''secret'' \<noteq> []" by simp
  have c: "notion_database_id demo_config = Some ''tasks''" by (simp add: demo_config_def)
  have d: "''tasks'' \<noteq> []" by simp
  have e: "map_of ?args ''title'' = Some (PStr ''Pay'')" by simp
  have f: "map_of ?args ''due_date'' = Some (PStr ''tomorrow'')" by simp
  have g: "''tomorrow'' \<noteq> []" by simp
  have h: "\<not> strptime_ok accepting_lib ''tomorrow''"
    by (simp add: accepting_lib_def demo_lib_def)
  have now: "now_isoformat accepting_lib n = ''2024-03-01T09:00:00''" for n
    by (simp add: accepting_lib_def demo_lib_def)
  have posted: "post accepting_lib req (remote start_state)
                  = (Inr (Response 200 ''{}'' (Inr (PDict [(''id'', PStr ''page-1'')]))), 1)" for req
    by (simp add: accepting_lib_def demo_lib_def start_state_def)
  have reply: "create_task_reply accepting_lib (PStr ''Pay'')
                 (Inr (Response 200 ''{}'' (Inr (PDict [(''id'', PStr ''page-1'')]))))
               = ok_mark @ '' Task created successfully: '' @ [CHR 0x27] @ ''Pay''
                 @ [CHR 0x27, newline] @ ''Page ID: page-1''"
    by (simp add: create_task_reply_def and_then_def dict_item_def)
  have calls: "task_calls (snd (create_task accepting_lib demo_config ?args start_state)) = [?args]"
    by (simp add: create_task_calls start_state_def)
  from invalid_due_date_is_skipped [OF a b c d e f g h, of start_state]
  obtain outcome s' where
    run: "create_task accepting_lib demo_config ?args start_state
            = (Inr [TextContent ''text'' (create_task_reply accepting_lib (PStr ''Pay'') outcome)], s')"
    and post: "post accepting_lib
                 (page_request ''secret'' ''tasks'' (PStr ''Pay'')
                    (dict_get ?args ''description'' (PStr []))
                    (dict_get ?args ''priority'' (PStr ''Medium''))
                    (dict_get ?args ''source'' (PStr ''Calendar''))
                    (now_isoformat accepting_lib (remote start_state)))
                 (remote start_state) = (outcome, remote s')"
    and sent: "sent s' = sent start_state
                 @ [page_request ''secret'' ''tasks'' (PStr ''Pay'')
                      (dict_get ?args ''description'' (PStr []))
                      (dict_get ?args ''priority'' (PStr ''Medium''))
                      (dict_get ?args ''source'' (PStr ''Calendar''))
                      (now_isoformat accepting_lib (remote start_state))]"
    by blast
  from post posted have out: "outcome = Inr (Response 200 ''{}'' (Inr (PDict [(''id'', PStr ''page-1'')])))"
    and rem: "remote s' = 1"
    by simp_all
  from calls run have tc: "task_calls s' = [?args]"
    by simp
  have s': "s' = \<lparr>remote = 1, sent = sent s', task_calls = [?args]\<rparr>"
    using rem tc by (cases s') simp
  from sent have sent': "sent s' = [page_request ''secret'' ''tasks'' (PStr ''Pay'')
                      (PStr ''Invoice 7'') (PStr ''High'') (PStr ''Calendar'')
                      ''2024-03-01T09:00:00'']"
    by (simp add: now dict_get_def start_state_def)
  show ?thesis
    using a b c d e f g h run out reply s' sent'
    by (simp add: page_request_def)
qed

section \<open>Properties of \<open>_get_tasks\<close>\<close>

lemma is_cased_lower: "is_cased (lower_char c) \<Longrightarrow> is_cased c"
  unfolding is_cased_def lower_char_def Let_def
  by (auto simp: of_char_of split: if_splits)

lemma upper_lower: "is_cased c \<Longrightarrow> upper_char (lower_char c) = upper_char c"
  unfolding is_cased_def upper_char_def lower_char_def Let_def
  by (auto simp: of_char_of)

lemma title_from_cased: "list_all is_cased s \<Longrightarrow> title_from True s = map lower_char s"
  by (induction s) auto

lemma str_title_lowered:
  assumes "str_lower f = l # ls" and "list_all is_cased (l # ls)"
  shows "str_title f = upper_char l # ls"
proof -
  from assms(1) obtain c cs where f: "f = c # cs" and l: "l = lower_char c"
    and ls: "ls = map lower_char cs"
    by (cases f) (auto simp: str_lower_def)
  from assms(2) l ls have "is_cased c" and "list_all is_cased cs"
    by (auto simp: is_cased_lower list_all_iff)
  then show ?thesis
    by (simp add: f l ls str_title_def title_from_cased upper_lower)
qed

lemma str_title_priority:
  assumes "str_lower f \<in> set [''high'', ''medium'', ''low'']"
  shows "str_title f = priority_name (str_lower f)"
proof -
  have up: "upper_char (CHR ''h'') = CHR ''H''" "upper_char (CHR ''m'') = CHR ''M''"
    "upper_char (CHR ''l'') = CHR ''L''"
    by code_simp+
  consider "str_lower f = ''high''" | "str_lower f = ''medium''" | "str_lower f = ''low''"
    using assms by auto
  then show ?thesis
  proof cases
    case 1
    have "list_all is_cased ''high''" by (simp add: is_cased_def)
    from str_title_lowered [OF 1 this] 1 show ?thesis
      by (simp add: priority_name_def up)
  next
    case 2
    have "list_all is_cased ''medium''" by (simp add: is_cased_def)
    from str_title_lowered [OF 2 this] 2 show ?thesis
      by (simp add: priority_name_def up)
  next
    case 3
    have "list_all is_cased ''low''" by (simp add: is_cased_def)
    from str_title_lowered [OF 3 this] 3 show ?thesis
      by (simp add: priority_name_def up)
  qed
qed

text \<open>
  Claim C8. For a filter whose lower-cased text is \<open>high\<close>, \<open>medium\<close> or \<open>low\<close>, in any
  letter case, \<open>_get_tasks\<close> sends exactly one query, whose payload asks for at most ten
  records and for the \<open>Priority\<close> property to equal \<open>High\<close>, \<open>Medium\<close> or \<open>Low\<close>.
\<close>

theorem priority_filter_query:
  assumes "map_of arguments ''filter_by'' = Some (PStr f)"
    and "str_lower f \<in> set [''high'', ''medium'', ''low'']"
  shows "\<exists>outcome s'.
           get_tasks lib cfg arguments s = (Inr (text_message (get_tasks_reply lib outcome)), s')
         \<and> sent s' = sent s
             @ [\<lparr>url = notion_url @ ''/databases/'' @ opt_str (notion_database_id cfg) @ ''/query'',
                 headers = get_notion_headers cfg,
                 body = PDict [(''page_size'', PInt 10),
                               (''filter'',
                                PDict [(''property'', PStr ''Priority''),
                                       (''select'',
                                        PDict [(''equals'',
                                                PStr (priority_name (str_lower f)))])])]\<rparr>]"
proof -
  from assms(2) have "f \<noteq> []"
    by (auto simp: str_lower_def)
  with assms have q: "tasks_query (dict_get arguments ''filter_by'' (PStr []))
            = Inr (PDict [(''page_size'', PInt 10),
                          (''filter'',
                           PDict [(''property'', PStr ''Priority''),
                                  (''select'',
                                   PDict [(''equals'', PStr (priority_name (str_lower f)))])])])"
    using str_title_priority [OF assms(2)]
    by (simp add: tasks_query_def dict_get_def and_then_def)
  show ?thesis
    unfolding get_tasks_def Let_def q
    by (auto split: prod.splits dest: send_sent)
qed

theorem priority_filter_query_witness:
  "map_of [(''filter_by'', PStr ''hIgH'')] ''filter_by'' = Some (PStr ''hIgH'')
   \<and> str_lower ''hIgH'' \<in> set [''high'', ''medium'', ''low'']
   \<and> map body (sent (snd (get_tasks demo_lib demo_config [(''filter_by'', PStr ''hIgH'')] start_state)))
       = [PDict [(''page_size'', PInt 10),
                 (''filter'',
                  PDict [(''property'', PStr ''Priority''),
                         (''select'', PDict [(''equals'', PStr ''High'')])])]]"
proof -
  have a: "map_of [(''filter_by'', PStr ''hIgH'')] ''filter_by'' = Some (PStr ''hIgH'')"
    by simp
  have b: "str_lower ''hIgH'' \<in> set [''high'', ''medium'', ''low'']"
    by code_simp
  have c: "priority_name (str_lower ''hIgH'') = ''High''"
    by code_simp
  from priority_filter_query [OF a b, of demo_lib demo_config start_state] a b c
  show ?thesis
    by (auto simp: start_state_def)
qed

section \<open>The tool call handlers\<close>

lemma create_task_text:
  "create_task lib cfg args s = (Inr r, s') \<Longrightarrow> \<exists>t. r = text_message t"
  by (auto simp: create_task_def Let_def split: sum.splits prod.splits if_splits)

lemma create_tasks_from_calendar_events_text:
  "create_tasks_from_calendar_events lib cfg args s = (Inr r, s') \<Longrightarrow> \<exists>t. r = text_message t"
  by (auto simp: create_tasks_from_calendar_events_def Let_def split: sum.splits prod.splits)

lemma create_meeting_summary_text:
  "create_meeting_summary lib cfg args s = (Inr r, s') \<Longrightarrow> \<exists>t. r = text_message t"
  by (auto simp: create_meeting_summary_def Let_def split: sum.splits prod.splits)

lemma get_tasks_text:
  "get_tasks lib cfg args s = (Inr r, s') \<Longrightarrow> \<exists>t. r = text_message t"
  by (auto simp: get_tasks_def Let_def split: sum.splits prod.splits)

lemma get_todays_events_text:
  "get_todays_events lib args s = (Inr r, s') \<Longrightarrow> \<exists>t. r = text_message t"
  by (auto simp: get_todays_events_def Let_def split: sum.splits prod.splits option.splits)

lemma get_events_by_date_text:
  "get_events_by_date lib args s = (Inr r, s') \<Longrightarrow> \<exists>t. r = text_message t"
  by (auto simp: get_events_by_date_def Let_def
        split: sum.splits prod.splits option.splits pyval.splits)

lemma extract_meeting_details_text:
  "extract_meeting_details lib args = Inr r \<Longrightarrow> \<exists>t. r = text_message t"
  by (auto simp: extract_meeting_details_def Let_def and_then_def split: sum.splits)

text \<open>
  Claim C4. For every tool name, known or not, and every argument dictionary, \<open>None\<close>
  included, the handler of each server returns a list of one text content: an exception a
  tool raises (a missing argument, a value of the wrong type, an unknown tool name, a
  failure of the remote service or of the authentication) comes back as the text
  \<open>Error executing ...\<close>.
\<close>

theorem handlers_always_answer:
  "(\<exists>t. fst (notion_handle_call_tool lib cfg name arguments s) = [TextContent ''text'' t])
   \<and> (\<exists>t. fst (calendar_handle_call_tool clib name arguments c) = [TextContent ''text'' t])"
proof
  let ?args = "case arguments of None \<Rightarrow> [] | Some given \<Rightarrow> given"
  obtain r s' where run: "notion_dispatch lib cfg name ?args s = (r, s')"
    by (cases "notion_dispatch lib cfg name ?args s")
  show "\<exists>t. fst (notion_handle_call_tool lib cfg name arguments s) = [TextContent ''text'' t]"
  proof (cases r)
    case (Inl e)
    with run show ?thesis
      by (simp add: notion_handle_call_tool_def text_message_def)
  next
    case (Inr res)
    with run have "\<exists>t. res = text_message t"
      by (auto simp: notion_dispatch_def split: if_splits
            dest: create_task_text create_tasks_from_calendar_events_text
                  create_meeting_summary_text get_tasks_text)
    with run Inr show ?thesis
      by (auto simp: notion_handle_call_tool_def text_message_def)
  qed
next
  let ?args = "case arguments of None \<Rightarrow> [] | Some given \<Rightarrow> given"
  obtain r c' where run: "calendar_dispatch clib name ?args c = (r, c')"
    by (cases "calendar_dispatch clib name ?args c")
  show "\<exists>t. fst (calendar_handle_call_tool clib name arguments c) = [TextContent ''text'' t]"
  proof (cases r)
    case (Inl e)
    with run show ?thesis
      by (simp add: calendar_handle_call_tool_def text_message_def)
  next
    case (Inr res)
    with run have "\<exists>t. res = text_message t"
      by (auto simp: calendar_dispatch_def split: if_splits
            dest: get_todays_events_text get_events_by_date_text extract_meeting_details_text)
    with run Inr show ?thesis
      by (auto simp: calendar_handle_call_tool_def text_message_def)
  qed
qed

section \<open>Where the code departs from the claims\<close>

text \<open>
  Claim C2 at a failing input. With neither secret set, only \<open>_create_task\<close> answers that
  the server is not configured. \<open>_get_tasks\<close> has no such test: it sends the query, with
  \<open>None\<close> in the address and in the authorization header, and reports the remote error.
  The bulk function and the meeting summary discard the answer of \<open>_create_task\<close> and
  report success.
\<close>

theorem unconfigured_calls_do_not_say_so:
  "get_tasks demo_lib no_config [] start_state
     = (Inr [TextContent ''text'' (err_mark @ '' Error fetching tasks: 401 - unauthorized'')],
        \<lparr>remote = 1,
           sent = [\<lparr>url = ''https://api.notion.com/v1/databases/None/query'',
                    headers = [(''Authorization'', ''Bearer None''),
                               (''Content-Type'', ''application/json''),
                               (''Notion-Version'', ''2022-06-28'')],
                    body = PDict [(''page_size'', PInt 10)]\<rparr>],
           task_calls = []\<rparr>)
   \<and> fst (create_tasks_from_calendar_events demo_lib no_config
             [(''events'', PStr demo_events_json)] start_state)
       = Inr [TextContent ''text''
                (ok_mark @ '' Created 3 tasks from calendar events:'' @ [newline]
                 @ bullet_mark @ '' Event: Sync'' @ [newline]
                 @ bullet_mark @ '' Action: todo: call vendor'' @ [newline]
                 @ bullet_mark @ '' Event: Lunch'')]
   \<and> fst (create_meeting_summary demo_lib no_config
             [(''meeting_title'', PStr ''Sync''), (''summary'', PStr ''Notes'')] start_state)
       = Inr [TextContent ''text''
                (ok_mark @ '' Created meeting summary and 0 action items for: Sync'')]
   \<and> fst (create_task demo_lib no_config [(''title'', PStr ''Sync'')] start_state)
       = Inr [TextContent ''text'' ''Error: Notion API key or database ID not configured.'']"
  by code_simp

text \<open>
  Claim C3 at a failing input. An attendee record without \<open>email\<close> puts \<open>None\<close>, not a
  string, into the \<open>attendees\<close> list of the event, and the list reaches the caller as the
  handler's answer; the workflow's \<open>", ".join(attendees)\<close> raises on it.
\<close>

theorem attendee_without_email_is_none:
  "event_info raw_event
     = Inr (PDict [(''title'', PStr ''Sync''),
                   (''start_time'', PStr ''2024-03-01T10:00:00Z''),
                   (''description'', PStr ''No description''),
                   (''location'', PStr ''No location specified''),
                   (''attendees'', PList [PNone, PStr ''ann@example.org''])])
   \<and> fst (calendar_handle_call_tool demo_cal_lib ''get_todays_events'' None start_cal)
       = [TextContent ''text''
            (json_dumps demo_cal_lib
               (PList [PDict [(''title'', PStr ''Sync''),
                              (''start_time'', PStr ''2024-03-01T10:00:00Z''),
                              (''description'', PStr ''No description''),
                              (''location'', PStr ''No location specified''),
                              (''attendees'', PList [PNone, PStr ''ann@example.org''])]]))]
   \<and> py_join '', '' (PList [PNone, PStr ''ann@example.org''])
       = Inl (TypeError ''sequence item 0: expected str instance, NoneType found'')"
  by code_simp

end
